theory Spec2Isabelle
  imports Main
begin

section \<open>Go strings\<close>

text \<open>
  A Go string is a sequence of bytes, here a \<^typ>\<open>string\<close> (a list of \<^typ>\<open>char\<close>,
  one per byte).  The Japanese literals of the program are written as their UTF-8
  bytes.  The functions of this section model the parts of packages \<^verbatim>\<open>strings\<close>,
  \<^verbatim>\<open>slices\<close> and \<^verbatim>\<open>strconv\<close> that the program calls.
\<close>

text \<open>\<^verbatim>\<open>strings.Contains(s, substr)\<close>: some suffix of \<open>s\<close> starts with \<open>substr\<close>.\<close>

definition hasPrefix :: "string \<Rightarrow> string \<Rightarrow> bool" where
  "hasPrefix s p = (take (length p) s = p)"

fun strContains :: "string \<Rightarrow> string \<Rightarrow> bool" where
  "strContains [] substr = (substr = [])"
| "strContains (c # cs) substr = (hasPrefix (c # cs) substr \<or> strContains cs substr)"

text \<open>
  \<^verbatim>\<open>strings.Cut(s, sep)\<close> with a separator of one byte (the program cuts at
  \<^verbatim>\<open>"("\<close> and \<^verbatim>\<open>")"\<close> only): the text before the first separator, the text
  after it, and whether it was found.
\<close>

definition strCut :: "string \<Rightarrow> char \<Rightarrow> string \<times> string \<times> bool" where
  "strCut s sep =
     (if sep \<in> set s
      then (takeWhile (\<lambda>c. c \<noteq> sep) s, tl (dropWhile (\<lambda>c. c \<noteq> sep) s), True)
      else (s, [], False))"

text \<open>\<^verbatim>\<open>strings.Split(s, sep)\<close> with a separator of one byte: never the empty list.\<close>

function strSplit :: "string \<Rightarrow> char \<Rightarrow> string list" where
  "strSplit s sep =
     (if sep \<in> set s
      then takeWhile (\<lambda>c. c \<noteq> sep) s # strSplit (tl (dropWhile (\<lambda>c. c \<noteq> sep) s)) sep
      else [s])"
  by pat_completeness auto
termination
proof (relation "measure (\<lambda>(s, sep). length s)")
  show "wf (measure (\<lambda>(s, sep). length s))" by simp
next
  fix s :: string and sep :: char
  assume "sep \<in> set s"
  then have "dropWhile (\<lambda>c. c \<noteq> sep) s \<noteq> []" by simp
  moreover have "length (dropWhile (\<lambda>c. c \<noteq> sep) s) \<le> length s"
    by (rule length_dropWhile_le)
  ultimately have "length (tl (dropWhile (\<lambda>c. c \<noteq> sep) s)) < length s"
    by (cases "dropWhile (\<lambda>c. c \<noteq> sep) s") simp_all
  then show "((tl (dropWhile (\<lambda>c. c \<noteq> sep) s), sep), (s, sep)) \<in> measure (\<lambda>(s, sep). length s)"
    by simp
qed

text \<open>\<^verbatim>\<open>strings.Join(elems, sep)\<close>.\<close>

fun strJoin :: "string list \<Rightarrow> string \<Rightarrow> string" where
  "strJoin [] sep = []"
| "strJoin [x] sep = x"
| "strJoin (x # y # ys) sep = x @ sep @ strJoin (y # ys) sep"

text \<open>
  \<^verbatim>\<open>strings.TrimSpace\<close> removes leading and trailing Unicode white space: the
  runes for which \<^verbatim>\<open>unicode.IsSpace\<close> holds, decoded from UTF-8.  A white-space rune
  is decoded at the start (at the end) of a string exactly when its encoding is a prefix
  (a suffix) of the bytes; \<open>unicodeSpaces\<close> lists these encodings: tab, line feed,
  vertical tab, form feed, carriage return, space, U+0085, U+00A0, U+1680,
  U+2000 to U+200A, U+2028, U+2029, U+202F, U+205F and U+3000.
\<close>

definition unicodeSpaces :: "string list" where
  "unicodeSpaces =
     [[CHR 0x09], [CHR 0x0A], [CHR 0x0B], [CHR 0x0C], [CHR 0x0D], [CHR 0x20],
      [CHR 0xC2, CHR 0x85], [CHR 0xC2, CHR 0xA0], [CHR 0xE1, CHR 0x9A, CHR 0x80],
      [CHR 0xE2, CHR 0x80, CHR 0x80], [CHR 0xE2, CHR 0x80, CHR 0x81],
      [CHR 0xE2, CHR 0x80, CHR 0x82], [CHR 0xE2, CHR 0x80, CHR 0x83],
      [CHR 0xE2, CHR 0x80, CHR 0x84], [CHR 0xE2, CHR 0x80, CHR 0x85],
      [CHR 0xE2, CHR 0x80, CHR 0x86], [CHR 0xE2, CHR 0x80, CHR 0x87],
      [CHR 0xE2, CHR 0x80, CHR 0x88], [CHR 0xE2, CHR 0x80, CHR 0x89],
      [CHR 0xE2, CHR 0x80, CHR 0x8A], [CHR 0xE2, CHR 0x80, CHR 0xA8],
      [CHR 0xE2, CHR 0x80, CHR 0xA9], [CHR 0xE2, CHR 0x80, CHR 0xAF],
      [CHR 0xE2, CHR 0x81, CHR 0x9F], [CHR 0xE3, CHR 0x80, CHR 0x80]]"

function trimPrefixes :: "string list \<Rightarrow> string \<Rightarrow> string" where
  "trimPrefixes ws s =
     (case find (\<lambda>w. w \<noteq> [] \<and> hasPrefix s w) ws of
        None \<Rightarrow> s
      | Some w \<Rightarrow> trimPrefixes ws (drop (length w) s))"
  by pat_completeness auto
termination
proof (relation "measure (\<lambda>(ws, s). length s)")
  show "wf (measure (\<lambda>(ws, s). length s))" by simp
next
  fix ws :: "string list" and s w :: string
  assume "find (\<lambda>w. w \<noteq> [] \<and> hasPrefix s w) ws = Some w"
  then have "w \<noteq> []" and "take (length w) s = w"
    by (auto simp: find_Some_iff hasPrefix_def)
  have "length (take (length w) s) \<le> length s" by simp
  with \<open>take (length w) s = w\<close> have "length w \<le> length s" by simp
  moreover from \<open>w \<noteq> []\<close> have "0 < length w" by simp
  ultimately have "length s - length w < length s" by arith
  then show "((ws, drop (length w) s), (ws, s)) \<in> measure (\<lambda>(ws, s). length s)"
    by simp
qed

definition trimSpace :: "string \<Rightarrow> string" where
  "trimSpace s = rev (trimPrefixes (map rev unicodeSpaces) (rev (trimPrefixes unicodeSpaces s)))"

text \<open>
  \<^verbatim>\<open>strconv.Atoi\<close>: an optional sign and then one or more decimal digits, nothing
  else; the value must fit Go's \<^verbatim>\<open>int\<close>, taken as 64 bits.  \<open>None\<close> is the error.
\<close>

definition isDigit :: "char \<Rightarrow> bool" where
  "isDigit c = (c \<in> set ''0123456789'')"

definition digitsValue :: "string \<Rightarrow> int" where
  "digitsValue ds = foldl (\<lambda>n d. 10 * n + (int (of_char d) - 48)) 0 ds"

definition atoi :: "string \<Rightarrow> int option" where
  "atoi s =
     (let (neg, ds) =
        (case s of
           [] \<Rightarrow> (False, [])
         | c # cs \<Rightarrow>
             if c = CHR ''-'' then (True, cs)
             else if c = CHR ''+'' then (False, cs)
             else (False, s))
      in if ds = [] \<or> \<not> list_all isDigit ds then None
         else (let v = (if neg then - digitsValue ds else digitsValue ds)
               in if - (2 ^ 63) \<le> v \<and> v < 2 ^ 63 then Some v else None))"

text \<open>Arithmetic on \<^verbatim>\<open>int\<close> wraps around at 64 bits.\<close>

definition wrap64 :: "int \<Rightarrow> int" where
  "wrap64 x = (x + 2 ^ 63) mod 2 ^ 64 - 2 ^ 63"

text \<open>\<^verbatim>\<open>containsAnyString\<close>: some element of \<open>substrings\<close> occurs in \<open>text\<close>.\<close>

fun containsAnyString :: "string \<Rightarrow> string list \<Rightarrow> bool" where
  "containsAnyString text [] = False"
| "containsAnyString text (substring # substrings) =
     (if strContains text substring then True else containsAnyString text substrings)"

section \<open>The parsed document\<close>

text \<open>
  \<^verbatim>\<open>html.Node\<close>: the type of the node, its data (the tag of an element, the content
  of a text node), its attributes and its children in order.  The program reads the tree
  and never changes it, nor compares nodes by address, so a node is a value.
\<close>

datatype NodeType =
  ErrorNode | TextNode | DocumentNode | ElementNode | CommentNode | DoctypeNode | RawNode

datatype Attribute = Attribute (aNamespace: string) (aKey: string) (aVal: string)

datatype Node = Node (nType: NodeType) (nData: string) (nAttr: "Attribute list")
  (nChildren: "Node list")

fun findAllNodes :: "Node \<Rightarrow> string \<Rightarrow> Node list" where
  "findAllNodes (Node t d a cs) tagName =
     (if t = ElementNode \<and> d = tagName then [Node t d a cs] else [])
       @ concat (map (\<lambda>child. findAllNodes child tagName) cs)"

fun findNodeWithText :: "Node \<Rightarrow> string \<Rightarrow> Node option"
  and findNodeWithTextIn :: "Node list \<Rightarrow> string \<Rightarrow> Node option" where
  "findNodeWithText (Node t d a cs) tagName =
     (if t = ElementNode \<and> d = tagName then Some (Node t d a cs)
      else findNodeWithTextIn cs tagName)"
| "findNodeWithTextIn [] tagName = None"
| "findNodeWithTextIn (child # rest) tagName =
     (case findNodeWithText child tagName of
        Some result \<Rightarrow> Some result
      | None \<Rightarrow> findNodeWithTextIn rest tagName)"

fun getNodeText :: "Node \<Rightarrow> string" where
  "getNodeText (Node t d a cs) =
     (if t = TextNode then d else []) @ concat (map getNodeText cs)"

definition hasStyle :: "Node \<Rightarrow> string \<Rightarrow> bool" where
  "hasStyle n style =
     list_ex (\<lambda>attr. aKey attr = ''style'' \<and> strContains (aVal attr) style) (nAttr n)"

definition hasStyleWidth :: "Node \<Rightarrow> string \<Rightarrow> bool" where
  "hasStyleWidth n width =
     list_ex (\<lambda>attr. aKey attr = ''style'' \<and> strContains (aVal attr) (''width:'' @ width))
       (nAttr n)"

definition hasAnyStyleWidth :: "Node \<Rightarrow> string list \<Rightarrow> bool" where
  "hasAnyStyleWidth n widths =
     list_ex (\<lambda>attr. aKey attr = ''style'' \<and>
        list_ex (\<lambda>width. strContains (aVal attr) (''width:'' @ width)) widths) (nAttr n)"

definition containsAllTexts :: "Node \<Rightarrow> string list \<Rightarrow> bool" where
  "containsAllTexts n texts = list_all (\<lambda>text. strContains (getNodeText n) text) texts"

definition containsAnyTexts :: "Node \<Rightarrow> string list \<Rightarrow> bool" where
  "containsAnyTexts n texts = list_ex (\<lambda>text. strContains (getNodeText n) text) texts"

section \<open>Configuration and rules\<close>

text \<open>The literals of the rule tables, as UTF-8 bytes.\<close>

definition ja_hohei :: string where \<comment> \<open>U+6B69 U+5175: infantry\<close>
  "ja_hohei = [CHR 0xE6, CHR 0xAD, CHR 0xA9, CHR 0xE5, CHR 0x85, CHR 0xB5]"

definition ja_kihei :: string where \<comment> \<open>U+9A0E U+5175: cavalry\<close>
  "ja_kihei = [CHR 0xE9, CHR 0xA8, CHR 0x8E, CHR 0xE5, CHR 0x85, CHR 0xB5]"

definition ja_kyuhei :: string where \<comment> \<open>U+5F13 U+5175: archers\<close>
  "ja_kyuhei = [CHR 0xE5, CHR 0xBC, CHR 0x93, CHR 0xE5, CHR 0x85, CHR 0xB5]"

definition ja_kansen :: string where \<comment> \<open>U+8266 U+8239: ships\<close>
  "ja_kansen = [CHR 0xE8, CHR 0x89, CHR 0xA6, CHR 0xE8, CHR 0x88, CHR 0xB9]"

definition ja_gunryaku :: string where \<comment> \<open>U+8ECD U+7565: stratagem\<close>
  "ja_gunryaku = [CHR 0xE8, CHR 0xBB, CHR 0x8D, CHR 0xE7, CHR 0x95, CHR 0xA5]"

definition ja_hojo :: string where \<comment> \<open>U+88DC U+52A9: support\<close>
  "ja_hojo = [CHR 0xE8, CHR 0xA3, CHR 0x9C, CHR 0xE5, CHR 0x8A, CHR 0xA9]"

definition ja_tonko :: string where \<comment> \<open>U+9041 U+7532: tonko\<close>
  "ja_tonko = [CHR 0xE9, CHR 0x81, CHR 0x81, CHR 0xE7, CHR 0x94, CHR 0xB2]"

definition ja_ninmu :: string where \<comment> \<open>U+4EFB U+52D9: duty\<close>
  "ja_ninmu = [CHR 0xE4, CHR 0xBB, CHR 0xBB, CHR 0xE5, CHR 0x8B, CHR 0x99]"

definition ja_chibo :: string where \<comment> \<open>U+667A U+8B00: wits\<close>
  "ja_chibo = [CHR 0xE6, CHR 0x99, CHR 0xBA, CHR 0xE8, CHR 0xAC, CHR 0x80]"

definition ja_heika :: string where \<comment> \<open>U+5175 U+79D1: arm of service\<close>
  "ja_heika = [CHR 0xE5, CHR 0x85, CHR 0xB5, CHR 0xE7, CHR 0xA7, CHR 0x91]"

definition ja_gunji :: string where \<comment> \<open>U+8ECD U+4E8B: military\<close>
  "ja_gunji = [CHR 0xE8, CHR 0xBB, CHR 0x8D, CHR 0xE4, CHR 0xBA, CHR 0x8B]"

definition ja_bugu :: string where \<comment> \<open>U+6B66 U+5177: arms\<close>
  "ja_bugu = [CHR 0xE6, CHR 0xAD, CHR 0xA6, CHR 0xE5, CHR 0x85, CHR 0xB7]"

definition ja_shomotsu :: string where \<comment> \<open>U+66F8 U+7269: books\<close>
  "ja_shomotsu = [CHR 0xE6, CHR 0x9B, CHR 0xB8, CHR 0xE7, CHR 0x89, CHR 0xA9]"

definition ja_homotsu :: string where \<comment> \<open>U+5B9D U+7269: treasure\<close>
  "ja_homotsu = [CHR 0xE5, CHR 0xAE, CHR 0x9D, CHR 0xE7, CHR 0x89, CHR 0xA9]"

definition ja_chaki :: string where \<comment> \<open>U+8336 U+5668: tea ware\<close>
  "ja_chaki = [CHR 0xE8, CHR 0x8C, CHR 0xB6, CHR 0xE5, CHR 0x99, CHR 0xA8]"

definition ja_meiba :: string where \<comment> \<open>U+540D U+99AC: fine horses\<close>
  "ja_meiba = [CHR 0xE5, CHR 0x90, CHR 0x8D, CHR 0xE9, CHR 0xA6, CHR 0xAC]"

definition ja_bijutsu :: string where \<comment> \<open>U+7F8E U+8853: art\<close>
  "ja_bijutsu = [CHR 0xE7, CHR 0xBE, CHR 0x8E, CHR 0xE8, CHR 0xA1, CHR 0x93]"

definition ja_sake :: string where \<comment> \<open>U+9152: wine\<close>
  "ja_sake = [CHR 0xE9, CHR 0x85, CHR 0x92]"

definition ja_ongaku :: string where \<comment> \<open>U+97F3 U+697D: music\<close>
  "ja_ongaku = [CHR 0xE9, CHR 0x9F, CHR 0xB3, CHR 0xE6, CHR 0xA5, CHR 0xBD]"

definition ja_shiika :: string where \<comment> \<open>U+8A69 U+6B4C: poetry\<close>
  "ja_shiika = [CHR 0xE8, CHR 0xA9, CHR 0xA9, CHR 0xE6, CHR 0xAD, CHR 0x8C]"

definition ja_kaiga :: string where \<comment> \<open>U+7D75 U+753B: painting\<close>
  "ja_kaiga = [CHR 0xE7, CHR 0xB5, CHR 0xB5, CHR 0xE7, CHR 0x94, CHR 0xBB]"

definition ja_ko :: string where \<comment> \<open>U+9999: incense\<close>
  "ja_ko = [CHR 0xE9, CHR 0xA6, CHR 0x99]"

definition ja_yakuso :: string where \<comment> \<open>U+85AC U+8349: herbs\<close>
  "ja_yakuso = [CHR 0xE8, CHR 0x96, CHR 0xAC, CHR 0xE8, CHR 0x8D, CHR 0x89]"

definition ja_gotan_a :: string where \<comment> \<open>U+8C6A U+80C6: bold\<close>
  "ja_gotan_a = [CHR 0xE8, CHR 0xB1, CHR 0xAA, CHR 0xE8, CHR 0x83, CHR 0x86]"

definition ja_reisei :: string where \<comment> \<open>U+51B7 U+9759: calm\<close>
  "ja_reisei = [CHR 0xE5, CHR 0x86, CHR 0xB7, CHR 0xE9, CHR 0x9D, CHR 0x99]"

definition ja_gotan_b :: string where \<comment> \<open>U+525B U+80C6: stout\<close>
  "ja_gotan_b = [CHR 0xE5, CHR 0x89, CHR 0x9B, CHR 0xE8, CHR 0x83, CHR 0x86]"

definition ja_chinchaku :: string where \<comment> \<open>U+6C88 U+7740: composed\<close>
  "ja_chinchaku = [CHR 0xE6, CHR 0xB2, CHR 0x88, CHR 0xE7, CHR 0x9D, CHR 0x80]"

definition ja_chototsu :: string where \<comment> \<open>U+732A U+7A81: reckless\<close>
  "ja_chototsu = [CHR 0xE7, CHR 0x8C, CHR 0xAA, CHR 0xE7, CHR 0xAA, CHR 0x81]"

definition ja_onwa :: string where \<comment> \<open>U+6E29 U+548C: gentle\<close>
  "ja_onwa = [CHR 0xE6, CHR 0xB8, CHR 0xA9, CHR 0xE5, CHR 0x92, CHR 0x8C]"

definition ja_okubyo :: string where \<comment> \<open>U+81C6 U+75C5: timid\<close>
  "ja_okubyo = [CHR 0xE8, CHR 0x87, CHR 0x86, CHR 0xE7, CHR 0x97, CHR 0x85]"

definition ja_mukanshin :: string where \<comment> \<open>U+7121 U+95A2 U+5FC3: indifferent\<close>
  "ja_mukanshin = [CHR 0xE7, CHR 0x84, CHR 0xA1, CHR 0xE9, CHR 0x96, CHR 0xA2, CHR 0xE5,
     CHR 0xBF, CHR 0x83]"

definition ja_jushi :: string where \<comment> \<open>U+91CD U+8996: valued\<close>
  "ja_jushi = [CHR 0xE9, CHR 0x87, CHR 0x8D, CHR 0xE8, CHR 0xA6, CHR 0x96]"

definition ja_bunbufumon :: string where \<comment> \<open>U+6587 U+6B66 U+4E0D U+554F: any renown\<close>
  "ja_bunbufumon = [CHR 0xE6, CHR 0x96, CHR 0x87, CHR 0xE6, CHR 0xAD, CHR 0xA6, CHR 0xE4,
     CHR 0xB8, CHR 0x8D, CHR 0xE5, CHR 0x95, CHR 0x8F]"

definition ja_bumei :: string where \<comment> \<open>U+6B66 U+540D: martial renown\<close>
  "ja_bumei = [CHR 0xE6, CHR 0xAD, CHR 0xA6, CHR 0xE5, CHR 0x90, CHR 0x8D]"

definition ja_komei :: string where \<comment> \<open>U+9AD8 U+540D: high renown\<close>
  "ja_komei = [CHR 0xE9, CHR 0xAB, CHR 0x98, CHR 0xE5, CHR 0x90, CHR 0x8D]"

definition ja_kosen :: string where \<comment> \<open>U+597D U+6226: warlike\<close>
  "ja_kosen = [CHR 0xE5, CHR 0xA5, CHR 0xBD, CHR 0xE6, CHR 0x88, CHR 0xA6]"

definition ja_futsu :: string where \<comment> \<open>U+666E U+901A: ordinary\<close>
  "ja_futsu = [CHR 0xE6, CHR 0x99, CHR 0xAE, CHR 0xE9, CHR 0x80, CHR 0x9A]"

definition ja_sekkyoku :: string where \<comment> \<open>U+7A4D U+6975: active\<close>
  "ja_sekkyoku = [CHR 0xE7, CHR 0xA9, CHR 0x8D, CHR 0xE6, CHR 0xA5, CHR 0xB5]"

definition ja_shokyoku :: string where \<comment> \<open>U+6D88 U+6975: passive\<close>
  "ja_shokyoku = [CHR 0xE6, CHR 0xB6, CHR 0x88, CHR 0xE6, CHR 0xA5, CHR 0xB5]"

definition ja_shiyoku :: string where \<comment> \<open>U+79C1 U+6B32: self-interest\<close>
  "ja_shiyoku = [CHR 0xE7, CHR 0xA7, CHR 0x81, CHR 0xE6, CHR 0xAC, CHR 0xB2]"

definition ja_choon :: string where \<comment> \<open>U+30FC: the long-vowel mark\<close>
  "ja_choon = [CHR 0xE3, CHR 0x83, CHR 0xBC]"

definition ja_kyomi :: string where \<comment> \<open>U+8208 U+5473: interest\<close>
  "ja_kyomi = [CHR 0xE8, CHR 0x88, CHR 0x88, CHR 0xE5, CHR 0x91, CHR 0xB3]"

definition ja_azana :: string where \<comment> \<open>U+5B57: courtesy name\<close>
  "ja_azana = [CHR 0xE5, CHR 0xAD, CHR 0x97]"

definition ja_botsunen :: string where \<comment> \<open>U+6CA1 U+5E74: year of death\<close>
  "ja_botsunen = [CHR 0xE6, CHR 0xB2, CHR 0xA1, CHR 0xE5, CHR 0xB9, CHR 0xB4]"

definition ja_tosotsu :: string where \<comment> \<open>U+7D71 U+7387: leadership\<close>
  "ja_tosotsu = [CHR 0xE7, CHR 0xB5, CHR 0xB1, CHR 0xE7, CHR 0x8E, CHR 0x87]"

definition ja_buryoku :: string where \<comment> \<open>U+6B66 U+529B: force\<close>
  "ja_buryoku = [CHR 0xE6, CHR 0xAD, CHR 0xA6, CHR 0xE5, CHR 0x8A, CHR 0x9B]"

definition ja_jushimeisei :: string where \<comment> \<open>U+91CD U+8996 U+540D U+58F0: valued renown\<close>
  "ja_jushimeisei = [CHR 0xE9, CHR 0x87, CHR 0x8D, CHR 0xE8, CHR 0xA6, CHR 0x96, CHR 0xE5,
     CHR 0x90, CHR 0x8D, CHR 0xE5, CHR 0xA3, CHR 0xB0]"

definition ja_butsuyoku :: string where \<comment> \<open>U+7269 U+6B32: greed\<close>
  "ja_butsuyoku = [CHR 0xE7, CHR 0x89, CHR 0xA9, CHR 0xE6, CHR 0xAC, CHR 0xB2]"

definition ja_senryakukeiko :: string where \<comment> \<open>U+6226 U+7565 U+50BE U+5411: strategic tendency\<close>
  "ja_senryakukeiko = [CHR 0xE6, CHR 0x88, CHR 0xA6, CHR 0xE7, CHR 0x95, CHR 0xA5, CHR 0xE5,
     CHR 0x82, CHR 0xBE, CHR 0xE5, CHR 0x90, CHR 0x91]"

definition ja_kisai :: string where \<comment> \<open>U+5947 U+624D: talent\<close>
  "ja_kisai = [CHR 0xE5, CHR 0xA5, CHR 0x87, CHR 0xE6, CHR 0x89, CHR 0x8D]"

definition ja_senpo :: string where \<comment> \<open>U+6226 U+6CD5: tactics\<close>
  "ja_senpo = [CHR 0xE6, CHR 0x88, CHR 0xA6, CHR 0xE6, CHR 0xB3, CHR 0x95]"

definition ja_tokugi :: string where \<comment> \<open>U+7279 U+6280: skills\<close>
  "ja_tokugi = [CHR 0xE7, CHR 0x89, CHR 0xB9, CHR 0xE6, CHR 0x8A, CHR 0x80]"

definition ja_koka :: string where \<comment> \<open>U+52B9 U+679C: effect\<close>
  "ja_koka = [CHR 0xE5, CHR 0x8A, CHR 0xB9, CHR 0xE6, CHR 0x9E, CHR 0x9C]"

definition msgMaxRetries :: string where \<comment> \<open>maximum number of retries reached\<close>
  "msgMaxRetries = [CHR 0xE6, CHR 0x9C, CHR 0x80, CHR 0xE5, CHR 0xA4, CHR 0xA7, CHR 0xE3,
     CHR 0x83, CHR 0xAA, CHR 0xE3, CHR 0x83, CHR 0x88, CHR 0xE3, CHR 0x83, CHR 0xA9,
     CHR 0xE3, CHR 0x82, CHR 0xA4, CHR 0xE5, CHR 0x9B, CHR 0x9E, CHR 0xE6, CHR 0x95,
     CHR 0xB0, CHR 0xE3, CHR 0x81, CHR 0xAB, CHR 0xE9, CHR 0x81, CHR 0x94, CHR 0xE3,
     CHR 0x81, CHR 0x97, CHR 0xE3, CHR 0x81, CHR 0xBE, CHR 0xE3, CHR 0x81, CHR 0x97,
     CHR 0xE3, CHR 0x81, CHR 0x9F]"

definition msgProcErrMid :: string where \<comment> \<open>processing error of URL\<close>
  "msgProcErrMid = [CHR '' '', CHR 0xE3, CHR 0x81, CHR 0xAE, CHR 0xE5, CHR 0x87, CHR 0xA6,
     CHR 0xE7, CHR 0x90, CHR 0x86, CHR 0xE3, CHR 0x82, CHR 0xA8, CHR 0xE3, CHR 0x83,
     CHR 0xA9, CHR 0xE3, CHR 0x83, CHR 0xBC, CHR '':'', CHR '' '']"

definition msgRateLimited :: string where \<comment> \<open>rate limit reached, run again later\<close>
  "msgRateLimited = [CHR 0xE3, CHR 0x83, CHR 0xAC, CHR 0xE3, CHR 0x83, CHR 0xBC, CHR 0xE3,
     CHR 0x83, CHR 0x88, CHR 0xE5, CHR 0x88, CHR 0xB6, CHR 0xE9, CHR 0x99, CHR 0x90,
     CHR 0xE3, CHR 0x81, CHR 0xAB, CHR 0xE9, CHR 0x81, CHR 0x94, CHR 0xE3, CHR 0x81,
     CHR 0x97, CHR 0xE3, CHR 0x81, CHR 0xBE, CHR 0xE3, CHR 0x81, CHR 0x97, CHR 0xE3,
     CHR 0x81, CHR 0x9F, CHR 0xE3, CHR 0x80, CHR 0x82, CHR 0xE3, CHR 0x81, CHR 0x97,
     CHR 0xE3, CHR 0x81, CHR 0xB0, CHR 0xE3, CHR 0x82, CHR 0x89, CHR 0xE3, CHR 0x81,
     CHR 0x8F, CHR 0xE6, CHR 0x99, CHR 0x82, CHR 0xE9, CHR 0x96, CHR 0x93, CHR 0xE3,
     CHR 0x82, CHR 0x92, CHR 0xE7, CHR 0xBD, CHR 0xAE, CHR 0xE3, CHR 0x81, CHR 0x84,
     CHR 0xE3, CHR 0x81, CHR 0xA6, CHR 0xE3, CHR 0x81, CHR 0x8B, CHR 0xE3, CHR 0x82,
     CHR 0x89, CHR 0xE5, CHR 0x86, CHR 0x8D, CHR 0xE5, CHR 0xAE, CHR 0x9F, CHR 0xE8,
     CHR 0xA1, CHR 0x8C, CHR 0xE3, CHR 0x81, CHR 0x97, CHR 0xE3, CHR 0x81, CHR 0xA6,
     CHR 0xE3, CHR 0x81, CHR 0x8F, CHR 0xE3, CHR 0x81, CHR 0xA0, CHR 0xE3, CHR 0x81,
     CHR 0x95, CHR 0xE3, CHR 0x81, CHR 0x84, CHR '':'', CHR '' '']"

text \<open>Durations are counted in nanoseconds, as \<^verbatim>\<open>time.Duration\<close> does.\<close>

record Config =
  DefaultJSONFile :: string
  BaseURL :: string
  MaxRetries :: int
  BaseDelay :: int
  RequestDelay :: int
  HTTPTimeout :: int

definition config :: Config where
  "config = \<lparr>DefaultJSONFile = ''characters.json'',
     BaseURL = ''https://wikiwiki.jp/sangokushi8r/'', MaxRetries = 3,
     BaseDelay = 2 * 1000000000, RequestDelay = 500 * 1000000,
     HTTPTimeout = 30 * 1000000000\<rparr>"

record ParsingRules =
  TacticCategories :: "string list"
  SkillCategories :: "string list"
  InterestItems :: "string list"
  PersonalityTypes :: "string list"
  FameTypes :: "string list"
  StrategyTypes :: "string list"
  InterestWidths :: "string list"
  ExcludeTexts :: "string list"
  RetryErrors :: "string list"
  BasicInfoHeaders :: "string list"
  AbilityHeaders :: "string list"
  StatusHeaders :: "string list"
  TalentHeaders :: "string list"
  TacticsHeaders :: "string list"
  SkillsHeaders :: "string list"

definition rules :: ParsingRules where
  "rules = \<lparr>
     TacticCategories = [ja_hohei, ja_kihei, ja_kyuhei, ja_kansen, ja_gunryaku, ja_hojo, ja_tonko],
     SkillCategories = [ja_ninmu, ja_chibo, ja_heika, ja_gunji],
     InterestItems = [ja_bugu, ja_shomotsu, ja_homotsu, ja_chaki, ja_meiba, ja_bijutsu, ja_sake,
       ja_ongaku, ja_shiika, ja_kaiga, ja_ko, ja_yakuso],
     PersonalityTypes = [ja_gotan_a, ja_reisei, ja_gotan_b, ja_chinchaku, ja_chototsu, ja_onwa,
       ja_okubyo],
     FameTypes = [ja_mukanshin, ja_jushi, ja_bunbufumon, ja_bumei, ja_komei],
     StrategyTypes = [ja_kosen, ja_futsu, ja_sekkyoku, ja_shokyoku, ja_shiyoku],
     InterestWidths = [''60px'', ''53px'', ''52px'', ''51px'', ''50px''],
     ExcludeTexts = [ja_choon, [], ja_kyomi, ''-''],
     RetryErrors = [''429'', ''Too Many Requests''],
     BasicInfoHeaders = [ja_azana, ja_botsunen],
     AbilityHeaders = [ja_tosotsu, ja_buryoku],
     StatusHeaders = [ja_jushimeisei, ja_butsuyoku, ja_senryakukeiko],
     TalentHeaders = [ja_kisai],
     TacticsHeaders = [ja_senpo],
     SkillsHeaders = [ja_tokugi]\<rparr>"

section \<open>The character record\<close>

record Character =
  Name :: string
  Reading :: string
  Azana :: string
  Leadership :: int
  Force :: int
  Intelligence :: int
  Politics :: int
  Charm :: int
  Talent :: string
  Interest :: string
  Greed :: string
  Loyalty :: int
  Personality :: string
  Strategy :: string
  DeathYear :: int
  DeathMinus13 :: int
  Tactics :: string
  Skills :: string
  Fame :: string

text \<open>The zero value \<^verbatim>\<open>Character{}\<close>.\<close>

definition emptyCharacter :: Character where
  "emptyCharacter = \<lparr>Name = [], Reading = [], Azana = [], Leadership = 0, Force = 0,
     Intelligence = 0, Politics = 0, Charm = 0, Talent = [], Interest = [], Greed = [],
     Loyalty = 0, Personality = [], Strategy = [], DeathYear = 0, DeathMinus13 = 0,
     Tactics = [], Skills = [], Fame = []\<rparr>"

section \<open>Field extractors\<close>

text \<open>
  An extractor of the program writes through a pointer to the record being assembled;
  here it takes the record and returns the updated one.
\<close>

subsection \<open>Name and reading\<close>

text \<open>
  \<^verbatim>\<open>extractNameAndReading\<close> of \<^verbatim>\<open>main.go\<close>: two cuts, each with its own guard.
  \<open>nameAndReadingOfText\<close> is the part of the function after the text of the first
  \<^verbatim>\<open>strong\<close> element has been read.
\<close>

definition nameAndReadingOfText :: "Character \<Rightarrow> string \<Rightarrow> Character" where
  "nameAndReadingOfText character text =
     (case strCut text (CHR ''('') of
        (name, rest, found) \<Rightarrow>
          if \<not> found then character
          else (case strCut rest (CHR '')'') of
                  (reading, _, found') \<Rightarrow>
                    if \<not> found' then character
                    else character\<lparr>Name := trimSpace name, Reading := trimSpace reading\<rparr>))"

definition extractNameAndReading :: "Character \<Rightarrow> Node \<Rightarrow> Character" where
  "extractNameAndReading character doc =
     (case findNodeWithText doc ''strong'' of
        None \<Rightarrow> character
      | Some nameNode \<Rightarrow> nameAndReadingOfText character (getNodeText nameNode))"

text \<open>
  The same function in the second program of the repository (\<^verbatim>\<open>part_000\<close>): a guard
  that both parentheses occur, then two splits.
\<close>

definition nameAndReadingOfText_split :: "Character \<Rightarrow> string \<Rightarrow> Character" where
  "nameAndReadingOfText_split character text =
     (if \<not> strContains text ''('' \<or> \<not> strContains text '')'' then character
      else (case strSplit text (CHR ''('') of
              part0 # part1 # _ \<Rightarrow>
                character\<lparr>Name := trimSpace part0,
                  Reading := trimSpace (hd (strSplit part1 (CHR '')'')))\<rparr>
            | _ \<Rightarrow> character))"

definition extractNameAndReading_split :: "Character \<Rightarrow> Node \<Rightarrow> Character" where
  "extractNameAndReading_split character doc =
     (case findNodeWithText doc ''strong'' of
        None \<Rightarrow> character
      | Some nameNode \<Rightarrow> nameAndReadingOfText_split character (getNodeText nameNode))"

subsection \<open>Basic information\<close>

fun extractBasicInfoFromRows :: "Character \<Rightarrow> Node list \<Rightarrow> Character" where
  "extractBasicInfoFromRows character [] = character"
| "extractBasicInfoFromRows character (row # rows) =
     (let cells = findAllNodes row ''td'' in
      if length cells < 9 then extractBasicInfoFromRows character rows
      else
        (let character1 =
           (if length cells > 1
            then character\<lparr>Azana := trimSpace (getNodeText (cells ! 1))\<rparr>
            else character)
         in if length cells > 6
            then (case atoi (trimSpace (getNodeText (cells ! 6))) of
                    Some deathYear \<Rightarrow>
                      character1\<lparr>DeathYear := deathYear, DeathMinus13 := wrap64 (deathYear - 13)\<rparr>
                  | None \<Rightarrow> character1)
            else character1))"

definition extractBasicInfoFromTable :: "Character \<Rightarrow> Node \<Rightarrow> Character" where
  "extractBasicInfoFromTable character table =
     extractBasicInfoFromRows character (findAllNodes table ''tr'')"

subsection \<open>Abilities\<close>

text \<open>
  The loop of \<^verbatim>\<open>extractAbilities\<close>, from index \<open>i\<close>: the array of abilities and the
  flag \<^verbatim>\<open>allNumbers\<close> when it ends.
\<close>

function abilitiesLoop :: "Node list \<Rightarrow> nat \<Rightarrow> int list \<Rightarrow> int list \<times> bool" where
  "abilitiesLoop cells i abilities =
     (if i < 5 \<and> i < length cells
      then (case atoi (trimSpace (getNodeText (cells ! i))) of
              Some val \<Rightarrow> abilitiesLoop cells (i + 1) (abilities[i := val])
            | None \<Rightarrow> (abilities, False))
      else (abilities, True))"
  by pat_completeness auto
termination
  by (relation "measure (\<lambda>(cells, i, abilities). 5 - i)") auto

definition extractAbilities :: "Character \<Rightarrow> Node list \<Rightarrow> Character" where
  "extractAbilities character cells =
     (if length cells < 5 then character
      else (case abilitiesLoop cells 0 (replicate 5 0) of
              (abilities, allNumbers) \<Rightarrow>
                if allNumbers \<and> abilities ! 0 > 0
                then character\<lparr>Leadership := abilities ! 0, Force := abilities ! 1,
                       Intelligence := abilities ! 2, Politics := abilities ! 3,
                       Charm := abilities ! 4\<rparr>
                else character))"

subsection \<open>Personality and loyalty\<close>

function loyaltyLoop :: "Character \<Rightarrow> Node list \<Rightarrow> nat \<Rightarrow> Character" where
  "loyaltyLoop character cells k =
     (if k < length cells
      then (case atoi (trimSpace (getNodeText (cells ! k))) of
              Some val \<Rightarrow> character\<lparr>Loyalty := val\<rparr>
            | None \<Rightarrow> loyaltyLoop character cells (k + 1))
      else character)"
  by pat_completeness auto
termination
  by (relation "measure (\<lambda>(character, cells, k). length cells - k)") auto

function personalityLoop :: "Character \<Rightarrow> Node list \<Rightarrow> nat \<Rightarrow> Character" where
  "personalityLoop character cells j =
     (if j < length cells
      then (let text = trimSpace (getNodeText (cells ! j)) in
            if text \<notin> set (PersonalityTypes rules) then personalityLoop character cells (j + 1)
            else loyaltyLoop (character\<lparr>Personality := text\<rparr>) cells (j + 1))
      else character)"
  by pat_completeness auto
termination
  by (relation "measure (\<lambda>(character, cells, j). length cells - j)") auto

definition extractPersonalityAndLoyalty :: "Character \<Rightarrow> Node list \<Rightarrow> Character" where
  "extractPersonalityAndLoyalty character cells =
     (if length cells < 2 then character else personalityLoop character cells 0)"

subsection \<open>Fame, greed and strategy\<close>

definition extractGreed :: "Character \<Rightarrow> Node list \<Rightarrow> nat \<Rightarrow> Character" where
  "extractGreed character cells startIndex =
     (if startIndex + 1 \<ge> length cells then character
      else (let greedText = trimSpace (getNodeText (cells ! (startIndex + 1))) in
            if greedText \<noteq> [] \<and> greedText \<noteq> ''-'' \<and> greedText \<noteq> ja_choon
            then character\<lparr>Greed := greedText\<rparr>
            else character))"

function strategyLoop :: "Character \<Rightarrow> Node list \<Rightarrow> nat \<Rightarrow> nat \<Rightarrow> Character" where
  "strategyLoop character cells startIndex k =
     (if k < length cells \<and> k < startIndex + 4
      then (let strategyText = trimSpace (getNodeText (cells ! k)) in
            if strategyText = [] \<or> strategyText = ja_choon
            then strategyLoop character cells startIndex (k + 1)
            else if strategyText \<in> set (StrategyTypes rules)
            then character\<lparr>Strategy := strategyText\<rparr>
            else if strategyText = ''-''
            then character\<lparr>Strategy := ''-''\<rparr>
            else strategyLoop character cells startIndex (k + 1))
      else character)"
  by pat_completeness auto
termination
  by (relation "measure (\<lambda>(character, cells, startIndex, k). length cells - k)") auto

definition extractStrategy :: "Character \<Rightarrow> Node list \<Rightarrow> nat \<Rightarrow> Character" where
  "extractStrategy character cells startIndex =
     strategyLoop character cells startIndex (startIndex + 2)"

function statusLoop :: "Character \<Rightarrow> Node list \<Rightarrow> nat \<Rightarrow> Character" where
  "statusLoop character cells j =
     (if j < length cells
      then (let text = trimSpace (getNodeText (cells ! j)) in
            if text \<notin> set (FameTypes rules) then statusLoop character cells (j + 1)
            else extractStrategy (extractGreed (character\<lparr>Fame := text\<rparr>) cells j) cells j)
      else character)"
  by pat_completeness auto
termination
  by (relation "measure (\<lambda>(character, cells, j). length cells - j)") auto

definition extractStatusInfo :: "Character \<Rightarrow> Node \<Rightarrow> Node list \<Rightarrow> Character" where
  "extractStatusInfo character row cells =
     (if containsAnyTexts row (StatusHeaders rules) then character
      else if length cells < 3 then character
      else statusLoop character cells 0)"

definition processTableRow :: "Character \<Rightarrow> Node \<Rightarrow> Node list \<Rightarrow> Character" where
  "processTableRow character row cells =
     extractStatusInfo
       (extractPersonalityAndLoyalty (extractAbilities character cells) cells) row cells"

fun extractAbilitiesFromRows :: "Character \<Rightarrow> Node list \<Rightarrow> Character" where
  "extractAbilitiesFromRows character [] = character"
| "extractAbilitiesFromRows character (row # rows) =
     extractAbilitiesFromRows (processTableRow character row (findAllNodes row ''td'')) rows"

definition extractAbilitiesFromTable :: "Character \<Rightarrow> Node \<Rightarrow> Character" where
  "extractAbilitiesFromTable character table =
     extractAbilitiesFromRows character (findAllNodes table ''tr'')"

subsection \<open>Talent\<close>

definition isTalentTable :: "Node \<Rightarrow> bool" where
  "isTalentTable table =
     (strContains (getNodeText table) ja_kisai \<and> strContains (getNodeText table) ja_koka)"

text \<open>
  The two loops of \<^verbatim>\<open>extractTalentFromTable\<close>, which return at the first cell styled
  gold: the text found, if any.
\<close>

fun talentOfCells :: "Node list \<Rightarrow> string option" where
  "talentOfCells [] = None"
| "talentOfCells (cell # cells) =
     (if hasStyle cell ''background-color:gold'' then Some (trimSpace (getNodeText cell))
      else talentOfCells cells)"

fun talentOfRows :: "Node list \<Rightarrow> string option" where
  "talentOfRows [] = None"
| "talentOfRows (row # rows) =
     (case talentOfCells (findAllNodes row ''td'') of
        Some found \<Rightarrow> Some found
      | None \<Rightarrow> talentOfRows rows)"

definition extractTalentFromTable :: "Character \<Rightarrow> Node \<Rightarrow> Character" where
  "extractTalentFromTable character table =
     (if \<not> isTalentTable table then character
      else (case talentOfRows (findAllNodes table ''tr'') of
              Some found \<Rightarrow> character\<lparr>Talent := found\<rparr>
            | None \<Rightarrow> character))"

text \<open>The same function in \<^verbatim>\<open>part_000\<close>, which has no test of the table.\<close>

definition extractTalentFromTable_unguarded :: "Character \<Rightarrow> Node \<Rightarrow> Character" where
  "extractTalentFromTable_unguarded character table =
     (case talentOfRows (findAllNodes table ''tr'') of
        Some found \<Rightarrow> character\<lparr>Talent := found\<rparr>
      | None \<Rightarrow> character)"

subsection \<open>The pass over the tables\<close>

text \<open>The first loop of \<^verbatim>\<open>extractFromTables\<close>: a switch on the class of each table.\<close>

fun classifiedTablesLoop :: "Character \<Rightarrow> Node list \<Rightarrow> Character" where
  "classifiedTablesLoop character [] = character"
| "classifiedTablesLoop character (table # tables) =
     classifiedTablesLoop
       (if containsAllTexts table (BasicInfoHeaders rules)
        then extractBasicInfoFromTable character table
        else if containsAllTexts table (AbilityHeaders rules)
        then extractTalentFromTable (extractAbilitiesFromTable character table) table
        else if containsAnyTexts table (TalentHeaders rules)
        then extractTalentFromTable character table
        else character)
       tables"

text \<open>The second loop: every table, until the talent is not empty.\<close>

fun talentFallbackLoop :: "Character \<Rightarrow> Node list \<Rightarrow> Character" where
  "talentFallbackLoop character [] = character"
| "talentFallbackLoop character (table # tables) =
     (let character1 = extractTalentFromTable character table in
      if Talent character1 \<noteq> [] then character1
      else talentFallbackLoop character1 tables)"

definition extractFromTables :: "Character \<Rightarrow> Node \<Rightarrow> Character" where
  "extractFromTables character doc =
     (let tables = findAllNodes doc ''table'';
          character1 = classifiedTablesLoop character tables
      in if Talent character1 = [] then talentFallbackLoop character1 tables
         else character1)"

text \<open>The second loop in \<^verbatim>\<open>part_000\<close>, over its own \<^verbatim>\<open>extractTalentFromTable\<close>.\<close>

fun talentFallbackLoop_unguarded :: "Character \<Rightarrow> Node list \<Rightarrow> Character" where
  "talentFallbackLoop_unguarded character [] = character"
| "talentFallbackLoop_unguarded character (table # tables) =
     (let character1 = extractTalentFromTable_unguarded character table in
      if Talent character1 \<noteq> [] then character1
      else talentFallbackLoop_unguarded character1 tables)"

subsection \<open>Interests\<close>

definition isInterestCell :: "string \<Rightarrow> bool" where
  "isInterestCell text = (text \<in> set (InterestItems rules))"

fun interestsLoop :: "Node list \<Rightarrow> string list \<Rightarrow> string list" where
  "interestsLoop [] interests = interests"
| "interestsLoop (cell # cells) interests =
     (if \<not> hasAnyStyleWidth cell (InterestWidths rules) then interestsLoop cells interests
      else (let text = trimSpace (getNodeText cell) in
            if text \<in> set (ExcludeTexts rules) \<or> \<not> isInterestCell text
            then interestsLoop cells interests
            else interestsLoop cells (interests @ [text])))"

definition extractInterests :: "Character \<Rightarrow> Node \<Rightarrow> Character" where
  "extractInterests character doc =
     character\<lparr>Interest := strJoin (interestsLoop (findAllNodes doc ''td'') []) '', ''\<rparr>"

definition extractBasicInfo :: "Node \<Rightarrow> Character" where
  "extractBasicInfo doc =
     extractInterests (extractFromTables (extractNameAndReading emptyCharacter doc) doc) doc"

subsection \<open>Tactics and skills\<close>

definition isTacticCategory :: "string \<Rightarrow> bool" where
  "isTacticCategory text = (text \<in> set (TacticCategories rules))"

definition isSkillCategory :: "string \<Rightarrow> bool" where
  "isSkillCategory text = (text \<in> set (SkillCategories rules))"

definition cleanTacticSkillText :: "string \<Rightarrow> string" where
  "cleanTacticSkillText text = (case strCut text (CHR ''('') of (cleaned, _, _) \<Rightarrow> trimSpace cleaned)"

fun skillCellsLoop :: "Node list \<Rightarrow> (string \<Rightarrow> bool) \<Rightarrow> string list \<Rightarrow> string list" where
  "skillCellsLoop [] isCategory items = items"
| "skillCellsLoop (cell # cells) isCategory items =
     (if \<not> hasStyleWidth cell ''70px'' then skillCellsLoop cells isCategory items
      else (let text = cleanTacticSkillText (trimSpace (getNodeText cell)) in
            if text \<noteq> [] \<and> \<not> isCategory text
            then skillCellsLoop cells isCategory (items @ [text])
            else skillCellsLoop cells isCategory items))"

fun skillRowsLoop :: "Node list \<Rightarrow> (string \<Rightarrow> bool) \<Rightarrow> string list \<Rightarrow> string list" where
  "skillRowsLoop [] isCategory items = items"
| "skillRowsLoop (row # rows) isCategory items =
     skillRowsLoop rows isCategory (skillCellsLoop (findAllNodes row ''td'') isCategory items)"

definition extractFromSkillTable :: "Node \<Rightarrow> (string \<Rightarrow> bool) \<Rightarrow> string list" where
  "extractFromSkillTable table isCategory =
     skillRowsLoop (findAllNodes table ''tr'') isCategory []"

text \<open>The loop of \<^verbatim>\<open>extractTacticsAndSkills\<close> over the tables, on the two lists.\<close>

fun tacticsAndSkillsLoop ::
  "Node list \<Rightarrow> string list \<times> string list \<Rightarrow> string list \<times> string list" where
  "tacticsAndSkillsLoop [] (tactics, skills) = (tactics, skills)"
| "tacticsAndSkillsLoop (table # tables) (tactics, skills) =
     tacticsAndSkillsLoop tables
       (if containsAnyTexts table (TacticsHeaders rules)
        then (extractFromSkillTable table isTacticCategory, skills)
        else if containsAnyTexts table (SkillsHeaders rules)
        then (tactics, extractFromSkillTable table isSkillCategory)
        else (tactics, skills))"

definition extractTacticsAndSkills :: "Node \<Rightarrow> string \<times> string" where
  "extractTacticsAndSkills doc =
     (case tacticsAndSkillsLoop (findAllNodes doc ''table'') ([], []) of
        (tactics, skills) \<Rightarrow> (strJoin tactics '', '', strJoin skills '', ''))"

section \<open>Fetching with retries, and the batch\<close>

text \<open>
  What the program does to the world is kept in a state: how many pages it has requested,
  the sleeps it has made (in nanoseconds, in order) and the lines it has logged.  The
  progress lines printed on standard output are not part of the state.

  The network is a parameter: the result of \<^verbatim>\<open>fetchAndParseHTML\<close> for a URL at the
  \<open>n\<close>-th request of the run, the text of the error (\<open>Inl\<close>) or the parsed document.
  An error is used by the program through its text only.
\<close>

record World =
  fetches :: nat
  sleeps :: "int list"
  logged :: "string list"

type_synonym network = "string \<Rightarrow> nat \<Rightarrow> string + Node"

definition extractCharacterInfo :: "network \<Rightarrow> string \<Rightarrow> World \<Rightarrow> (string + Character) \<times> World" where
  "extractCharacterInfo net url w =
     (case net url (fetches w) of
        Inl err \<Rightarrow> (Inl err, w\<lparr>fetches := fetches w + 1\<rparr>)
      | Inr doc \<Rightarrow>
          (case extractTacticsAndSkills doc of
             (tactics, skills) \<Rightarrow>
               (Inr ((extractBasicInfo doc)\<lparr>Tactics := tactics, Skills := skills\<rparr>),
                w\<lparr>fetches := fetches w + 1\<rparr>)))"

definition shouldRetry :: "string \<Rightarrow> int \<Rightarrow> int \<Rightarrow> bool" where
  "shouldRetry err attempt maxRetries =
     (containsAnyString err (RetryErrors rules) \<and> attempt < maxRetries - 1)"

text \<open>
  The loop of \<^verbatim>\<open>extractCharacterInfoWithRetry\<close> from \<open>attempt\<close> on.  With an error the
  program returns the zero record beside it, so the result is a sum.
\<close>

function retryLoop :: "network \<Rightarrow> string \<Rightarrow> int \<Rightarrow> World \<Rightarrow> (string + Character) \<times> World" where
  "retryLoop net url attempt w =
     (if attempt < MaxRetries config
      then (case extractCharacterInfo net url w of
              (Inr character, w1) \<Rightarrow> (Inr character, w1)
            | (Inl err, w1) \<Rightarrow>
                if shouldRetry err attempt (MaxRetries config)
                then retryLoop net url (attempt + 1)
                       (w1\<lparr>sleeps := sleeps w1 @ [BaseDelay config * (attempt + 1)]\<rparr>)
                else (Inl err, w1))
      else (Inl msgMaxRetries, w))"
  by pat_completeness auto
termination
  by (relation "measure (\<lambda>(net, url, attempt, w). nat (MaxRetries config - attempt))") auto

definition extractCharacterInfoWithRetry ::
  "network \<Rightarrow> string \<Rightarrow> World \<Rightarrow> (string + Character) \<times> World" where
  "extractCharacterInfoWithRetry net url w = retryLoop net url 0 w"

definition isRateLimitError :: "string \<Rightarrow> bool" where
  "isRateLimitError err =
     (containsAnyString err (RetryErrors rules) \<or> strContains err msgMaxRetries)"

text \<open>\<^verbatim>\<open>ProcessingError.Error\<close>: the text of the error of one URL.\<close>

definition processingErrorText :: "string \<Rightarrow> string \<Rightarrow> string" where
  "processingErrorText url message = ''URL '' @ url @ msgProcErrMid @ message"

text \<open>
  \<^verbatim>\<open>log.Fatalf\<close> writes its line and ends the process: a run is either \<open>Exited\<close> or
  goes on with a value.
\<close>

datatype 'a run = Exited World | Running 'a World

definition handleProcessingError :: "string \<Rightarrow> string \<Rightarrow> World \<Rightarrow> unit run" where
  "handleProcessingError url err w =
     (if isRateLimitError err
      then Exited (w\<lparr>logged := logged w @ [msgRateLimited @ processingErrorText url err]\<rparr>)
      else Running () (w\<lparr>logged := logged w @ [processingErrorText url err]\<rparr>))"

definition sleepBetweenRequests :: "int \<Rightarrow> int \<Rightarrow> World \<Rightarrow> World" where
  "sleepBetweenRequests currentIndex totalCount w =
     (if currentIndex < totalCount - 1 then w\<lparr>sleeps := sleeps w @ [RequestDelay config]\<rparr>
      else w)"

text \<open>
  The loop of \<^verbatim>\<open>processCategory\<close> over the URLs that are left, \<open>i\<close> being the index of
  the first of them and \<open>totalCount\<close> the number of all.
\<close>

fun processLoop ::
  "network \<Rightarrow> int \<Rightarrow> int \<Rightarrow> string list \<Rightarrow> Character list \<Rightarrow> World \<Rightarrow> Character list run" where
  "processLoop net totalCount i [] characters w = Running characters w"
| "processLoop net totalCount i (url # urls) characters w =
     (case extractCharacterInfoWithRetry net url w of
        (Inl err, w1) \<Rightarrow>
          (case handleProcessingError url err w1 of
             Exited w2 \<Rightarrow> Exited w2
           | Running _ w2 \<Rightarrow> processLoop net totalCount (i + 1) urls characters w2)
      | (Inr character, w1) \<Rightarrow>
          processLoop net totalCount (i + 1) urls (characters @ [character])
            (sleepBetweenRequests i totalCount w1))"

definition processAllCharacters :: "network \<Rightarrow> string list \<Rightarrow> World \<Rightarrow> Character list run" where
  "processAllCharacters net urls w = processLoop net (int (length urls)) 0 urls [] w"

section \<open>Notions used in the statements\<close>

text \<open>Small documents: a text node, an element, a table cell holding one text.\<close>

definition textNode :: "string \<Rightarrow> Node" where
  "textNode s = Node TextNode s [] []"

definition element :: "string \<Rightarrow> Attribute list \<Rightarrow> Node list \<Rightarrow> Node" where
  "element tagName attrs children = Node ElementNode tagName attrs children"

definition tdCell :: "string \<Rightarrow> Node" where
  "tdCell s = element ''td'' [] [textNode s]"

definition styledCell :: "string \<Rightarrow> string \<Rightarrow> Node" where
  "styledCell style s = element ''td'' [Attribute [] ''style'' style] [textNode s]"

text \<open>The trimmed text of cell \<open>i\<close> of a row, and the integer read there, if any.\<close>

definition cellText :: "Node list \<Rightarrow> nat \<Rightarrow> string" where
  "cellText cells i = trimSpace (getNodeText (cells ! i))"

definition cellInt :: "Node list \<Rightarrow> nat \<Rightarrow> int option" where
  "cellInt cells i = atoi (cellText cells i)"

text \<open>
  A row commits its abilities: it has five cells, the first five are integers and the
  first of them is positive.
\<close>

definition validAbilityRow :: "Node list \<Rightarrow> bool" where
  "validAbilityRow cells =
     (5 \<le> length cells \<and> list_all (\<lambda>i. cellInt cells i \<noteq> None) [0..<5] \<and>
      0 < the (cellInt cells 0))"

definition abilities5 :: "Character \<Rightarrow> int \<times> int \<times> int \<times> int \<times> int" where
  "abilities5 c = (Leadership c, Force c, Intelligence c, Politics c, Charm c)"

definition abilitiesAllOrNothing :: "Character \<Rightarrow> bool" where
  "abilitiesAllOrNothing c = (0 < Leadership c \<or> abilities5 c = (0, 0, 0, 0, 0))"

text \<open>The world before the run.\<close>

definition world0 :: World where
  "world0 = \<lparr>fetches = 0, sleeps = [], logged = []\<rparr>"

text \<open>
  A row that \<^verbatim>\<open>extractStatusInfo\<close> reads as data, and the cell where its loop finds
  the fame: the first cell whose trimmed text is in the vocabulary.
\<close>

definition isDataRow :: "Node \<Rightarrow> Node list \<Rightarrow> bool" where
  "isDataRow row cells = (\<not> containsAnyTexts row (StatusHeaders rules) \<and> 3 \<le> length cells)"

definition fameFoundAt :: "Node list \<Rightarrow> nat \<Rightarrow> bool" where
  "fameFoundAt cells j =
     (j < length cells \<and> cellText cells j \<in> set (FameTypes rules) \<and>
      list_all (\<lambda>k. cellText cells k \<notin> set (FameTypes rules)) [0..<j])"

text \<open>The texts that keep the greed from being written.\<close>

definition greedSuppressed :: "string \<Rightarrow> bool" where
  "greedSuppressed t = (t = [] \<or> t = ''-'' \<or> t = ja_choon)"

text \<open>
  The trimmed texts of the cells at \<open>j + 2\<close> and \<open>j + 3\<close> that exist, and the texts
  that end the scan of the strategy.
\<close>

definition strategyCandidates :: "Node list \<Rightarrow> nat \<Rightarrow> string list" where
  "strategyCandidates cells j = map (cellText cells) (filter (\<lambda>k. k < length cells) [j + 2, j + 3])"

definition commitsStrategy :: "string \<Rightarrow> bool" where
  "commitsStrategy t = (t \<in> set (StrategyTypes rules) \<or> t = ''-'')"

text \<open>
  The cell where the loop of \<^verbatim>\<open>extractPersonalityAndLoyalty\<close> finds the personality,
  and a row with no integer after cell \<open>j\<close>.
\<close>

definition personalityFoundAt :: "Node list \<Rightarrow> nat \<Rightarrow> bool" where
  "personalityFoundAt cells j =
     (j < length cells \<and> cellText cells j \<in> set (PersonalityTypes rules) \<and>
      list_all (\<lambda>k. cellText cells k \<notin> set (PersonalityTypes rules)) [0..<j])"

definition noIntegerAfter :: "Node list \<Rightarrow> nat \<Rightarrow> bool" where
  "noIntegerAfter cells j = list_all (\<lambda>k. cellInt cells k = None) [j + 1..<length cells]"

text \<open>A record with its personality and loyalty blanked: all its other fields.\<close>

definition otherFields :: "Character \<Rightarrow> Character" where
  "otherFields c = c\<lparr>Personality := [], Loyalty := 0\<rparr>"

text \<open>Rows of examples.\<close>

definition greedRow :: "string \<Rightarrow> Node list" where
  "greedRow greed = map tdCell [ja_jushi, greed, ja_kosen]"

definition strategyRow :: "Node list" where
  "strategyRow = map tdCell [ja_jushi, ''rich'', ja_choon, ja_kosen]"

definition calmRow :: "Node list" where
  "calmRow = map tdCell [ja_reisei, ''high'']"

text \<open>
  The classes of the switch of \<^verbatim>\<open>extractTacticsAndSkills\<close>: the case of the tactics
  comes first, so a table is read for skills only when it is not one of tactics.
\<close>

definition isTacticsTable :: "Node \<Rightarrow> bool" where
  "isTacticsTable table = containsAnyTexts table (TacticsHeaders rules)"

definition isSkillsTable :: "Node \<Rightarrow> bool" where
  "isSkillsTable table =
     (\<not> containsAnyTexts table (TacticsHeaders rules) \<and> containsAnyTexts table (SkillsHeaders rules))"

text \<open>
  The cells of a table as the program walks them: the \<^verbatim>\<open>td\<close> elements under each
  \<^verbatim>\<open>tr\<close> element, row after row.
\<close>

definition cellsByRow :: "Node \<Rightarrow> Node list" where
  "cellsByRow table = concat (map (\<lambda>row. findAllNodes row ''td'') (findAllNodes table ''tr''))"

text \<open>
  The items of a list of cells: of each cell styled with a width of 70px, the trimmed text
  up to its first \<^verbatim>\<open>(\<close>, trimmed again; kept when not empty and not a category.
\<close>

definition cleanedItems :: "Node list \<Rightarrow> (string \<Rightarrow> bool) \<Rightarrow> string list" where
  "cleanedItems cells isCategory =
     filter (\<lambda>text. text \<noteq> [] \<and> \<not> isCategory text)
       (map (\<lambda>cell. trimSpace (takeWhile (\<lambda>c. c \<noteq> CHR ''('') (trimSpace (getNodeText cell))))
          (filter (\<lambda>cell. hasStyleWidth cell ''70px'') cells))"

text \<open>The items of the last table of a class, and (the reading of the specification) of
  all the tables of the class together.\<close>

definition lastTableItems :: "(Node \<Rightarrow> bool) \<Rightarrow> (string \<Rightarrow> bool) \<Rightarrow> Node list \<Rightarrow> string list" where
  "lastTableItems classified isCategory tables =
     (if filter classified tables = [] then []
      else cleanedItems (cellsByRow (last (filter classified tables))) isCategory)"

definition accumulatedItems :: "(Node \<Rightarrow> bool) \<Rightarrow> (string \<Rightarrow> bool) \<Rightarrow> Node list \<Rightarrow> string list" where
  "accumulatedItems classified isCategory tables =
     concat (map (\<lambda>table. cleanedItems (cellsByRow table) isCategory) (filter classified tables))"

text \<open>
  The trimmed text of the first gold cell of a table, without and with the test of
  \<^verbatim>\<open>isTalentTable\<close>; \<open>firstTalent\<close> is the talent of the first table that yields a
  text that is not empty.
\<close>

definition goldCell :: "Node \<Rightarrow> bool" where
  "goldCell cell = hasStyle cell ''background-color:gold''"

definition goldTalent :: "Node \<Rightarrow> string option" where
  "goldTalent table =
     map_option (\<lambda>cell. trimSpace (getNodeText cell)) (find goldCell (cellsByRow table))"

definition guardedTalent :: "Node \<Rightarrow> string option" where
  "guardedTalent table = (if isTalentTable table then goldTalent table else None)"

definition yieldsTalent :: "string option \<Rightarrow> bool" where
  "yieldsTalent found = (found \<noteq> None \<and> found \<noteq> Some [])"

definition firstTalent :: "(Node \<Rightarrow> string option) \<Rightarrow> Node list \<Rightarrow> string" where
  "firstTalent talentOf tables =
     (case find (\<lambda>table. yieldsTalent (talentOf table)) tables of
        None \<Rightarrow> []
      | Some table \<Rightarrow> the (talentOf table))"

text \<open>Tables and documents of examples.\<close>

definition headedTable :: "string \<Rightarrow> string \<Rightarrow> Node" where
  "headedTable header item =
     element ''table'' [] [element ''tr'' [] [tdCell header, styledCell ''width:70px'' item]]"

definition bothHeadersTable :: Node where
  "bothHeadersTable =
     element ''table'' []
       [element ''tr'' [] [tdCell ja_senpo, tdCell ja_tokugi, styledCell ''width:70px'' ''X'']]"

definition nestedSkillsTable :: Node where
  "nestedSkillsTable =
     element ''table'' []
       [element ''tr'' [] [tdCell ja_senpo, element ''td'' [] [headedTable ja_tokugi ''S'']]]"

definition twoTacticsDoc :: Node where
  "twoTacticsDoc = element ''body'' [] [headedTable ja_senpo ''A'', headedTable ja_senpo ''B'']"

definition goldOnlyTable :: Node where
  "goldOnlyTable =
     element ''table'' [] [element ''tr'' [] [styledCell ''background-color:gold'' ''X'']]"

definition basicTalentTable :: Node where
  "basicTalentTable =
     element ''table'' []
       [element ''tr'' [] [tdCell ja_azana, tdCell ja_botsunen, tdCell ja_kisai, tdCell ja_koka],
        element ''tr'' [] [styledCell ''background-color:gold'' ''Y'']]"

definition goldOnlyDoc :: Node where
  "goldOnlyDoc = element ''body'' [] [goldOnlyTable]"

definition fallbackDoc :: Node where
  "fallbackDoc = element ''body'' [] [goldOnlyTable, basicTalentTable]"

definition nestedGoldTable :: Node where
  "nestedGoldTable =
     element ''table'' []
       [element ''tr'' []
          [tdCell ja_azana, tdCell ja_botsunen, tdCell ja_kisai, tdCell ja_koka,
           element ''td'' [] [goldOnlyTable]]]"

definition nestedGoldDoc :: Node where
  "nestedGoldDoc = element ''body'' [] [nestedGoldTable]"

text \<open>
  A text around its first \<^verbatim>\<open>(\<close>: what stands before it and what stands after it.
  The texts on which the two ways of reading name and reading do the same: one of the
  parentheses is missing, or after the first \<^verbatim>\<open>(\<close> comes a \<^verbatim>\<open>)\<close> with no
  \<^verbatim>\<open>(\<close> before it.
\<close>

definition beforeOpen :: "string \<Rightarrow> string" where
  "beforeOpen text = takeWhile (\<lambda>c. c \<noteq> CHR ''('') text"

definition afterOpen :: "string \<Rightarrow> string" where
  "afterOpen text = tl (dropWhile (\<lambda>c. c \<noteq> CHR ''('') text)"

definition parsesAlike :: "string \<Rightarrow> bool" where
  "parsesAlike text =
     (CHR ''('' \<notin> set text \<or> CHR '')'' \<notin> set text \<or>
      (CHR '')'' \<in> set (afterOpen text) \<and>
       CHR ''('' \<notin> set (takeWhile (\<lambda>c. c \<noteq> CHR '')'') (afterOpen text))))"

section \<open>Abilities are committed together\<close>

declare strSplit.simps [simp del] trimPrefixes.simps [simp del] abilitiesLoop.simps [simp del]
  loyaltyLoop.simps [simp del] personalityLoop.simps [simp del] strategyLoop.simps [simp del]
  statusLoop.simps [simp del] retryLoop.simps [simp del]

lemma abilitiesLoop_flag:
  "snd (abilitiesLoop cells i abilities) =
     (\<forall>k. i \<le> k \<and> k < 5 \<and> k < length cells \<longrightarrow> cellInt cells k \<noteq> None)"
proof (induction cells i abilities rule: abilitiesLoop.induct)
  case (1 cells i abilities)
  show ?case
  proof (cases "i < 5 \<and> i < length cells")
    case False
    then show ?thesis by (subst abilitiesLoop.simps) auto
  next
    case True
    show ?thesis
    proof (cases "cellInt cells i")
      case None
      with True show ?thesis
        by (subst abilitiesLoop.simps) (auto simp: cellInt_def cellText_def)
    next
      case (Some v)
      with True have "snd (abilitiesLoop cells i abilities) =
          snd (abilitiesLoop cells (i + 1) (abilities[i := v]))"
        by (subst abilitiesLoop.simps) (simp add: cellInt_def cellText_def)
      also have "\<dots> = (\<forall>k. i + 1 \<le> k \<and> k < 5 \<and> k < length cells \<longrightarrow> cellInt cells k \<noteq> None)"
        using "1.IH"[OF True] Some by (simp add: cellInt_def cellText_def)
      also have "\<dots> = (\<forall>k. i \<le> k \<and> k < 5 \<and> k < length cells \<longrightarrow> cellInt cells k \<noteq> None)"
      proof (intro iffI allI impI)
        fix k assume a: "\<forall>k. i + 1 \<le> k \<and> k < 5 \<and> k < length cells \<longrightarrow> cellInt cells k \<noteq> None"
          and b: "i \<le> k \<and> k < 5 \<and> k < length cells"
        show "cellInt cells k \<noteq> None"
        proof (cases "k = i")
          case True with Some show ?thesis by simp
        next
          case False
          with b have "i + 1 \<le> k \<and> k < 5 \<and> k < length cells" by arith
          with a show ?thesis by blast
        qed
      next
        fix k assume a: "\<forall>k. i \<le> k \<and> k < 5 \<and> k < length cells \<longrightarrow> cellInt cells k \<noteq> None"
          and b: "i + 1 \<le> k \<and> k < 5 \<and> k < length cells"
        from b have "i \<le> k \<and> k < 5 \<and> k < length cells" by arith
        with a show "cellInt cells k \<noteq> None" by blast
      qed
      finally show ?thesis .
    qed
  qed
qed

lemma abilitiesLoop_values:
  "snd (abilitiesLoop cells i abilities) \<Longrightarrow> length abilities = 5 \<Longrightarrow> 5 \<le> length cells \<Longrightarrow>
   k < 5 \<Longrightarrow>
   fst (abilitiesLoop cells i abilities) ! k =
     (if k < i then abilities ! k else the (cellInt cells k))"
proof (induction cells i abilities rule: abilitiesLoop.induct)
  case (1 cells i abilities)
  show ?case
  proof (cases "i < 5 \<and> i < length cells")
    case False
    with "1.prems" show ?thesis by (subst abilitiesLoop.simps) auto
  next
    case True
    show ?thesis
    proof (cases "cellInt cells i")
      case None
      with True "1.prems"(1) show ?thesis
        by (subst (asm) abilitiesLoop.simps) (simp add: cellInt_def cellText_def)
    next
      case (Some v)
      with True have eq: "abilitiesLoop cells i abilities =
          abilitiesLoop cells (i + 1) (abilities[i := v])"
        by (subst abilitiesLoop.simps) (simp add: cellInt_def cellText_def)
      have "fst (abilitiesLoop cells (i + 1) (abilities[i := v])) ! k =
          (if k < i + 1 then abilities[i := v] ! k else the (cellInt cells k))"
        using "1.IH"[OF True, of v] Some "1.prems" eq by (simp add: cellInt_def cellText_def)
      with eq True Some "1.prems" show ?thesis
        by (auto simp: nth_list_update less_Suc_eq)
    qed
  qed
qed


lemma list_all_upt5: "list_all P [0..<5] = (\<forall>k<5. P (k::nat))"
  by (simp add: list_all_iff Ball_def)

lemma abilities5_update [simp]:
  "abilities5 (c\<lparr>Name := s\<rparr>) = abilities5 c"
  "abilities5 (c\<lparr>Reading := s\<rparr>) = abilities5 c"
  "abilities5 (c\<lparr>Azana := s\<rparr>) = abilities5 c"
  "abilities5 (c\<lparr>Talent := s\<rparr>) = abilities5 c"
  "abilities5 (c\<lparr>Interest := s\<rparr>) = abilities5 c"
  "abilities5 (c\<lparr>Greed := s\<rparr>) = abilities5 c"
  "abilities5 (c\<lparr>Loyalty := n\<rparr>) = abilities5 c"
  "abilities5 (c\<lparr>Personality := s\<rparr>) = abilities5 c"
  "abilities5 (c\<lparr>Strategy := s\<rparr>) = abilities5 c"
  "abilities5 (c\<lparr>DeathYear := n\<rparr>) = abilities5 c"
  "abilities5 (c\<lparr>DeathMinus13 := n\<rparr>) = abilities5 c"
  "abilities5 (c\<lparr>Tactics := s\<rparr>) = abilities5 c"
  "abilities5 (c\<lparr>Skills := s\<rparr>) = abilities5 c"
  "abilities5 (c\<lparr>Fame := s\<rparr>) = abilities5 c"
  by (simp_all add: abilities5_def)

lemma extractAbilities_eq:
  "extractAbilities c cells =
     (if validAbilityRow cells
      then c\<lparr>Leadership := the (cellInt cells 0), Force := the (cellInt cells 1),
             Intelligence := the (cellInt cells 2), Politics := the (cellInt cells 3),
             Charm := the (cellInt cells 4)\<rparr>
      else c)"
proof (cases "5 \<le> length cells")
  case False
  then show ?thesis by (simp add: extractAbilities_def validAbilityRow_def)
next
  case len: True
  obtain abilities allNumbers where
    loop: "abilitiesLoop cells 0 (replicate 5 0) = (abilities, allNumbers)"
    by (cases "abilitiesLoop cells 0 (replicate 5 0)")
  have flag: "allNumbers = list_all (\<lambda>i. cellInt cells i \<noteq> None) [0..<5]"
    using abilitiesLoop_flag[of cells 0 "replicate 5 0"] loop len
    unfolding list_all_upt5 by auto
  show ?thesis
  proof (cases allNumbers)
    case False
    with flag have "\<not> validAbilityRow cells" by (simp only: validAbilityRow_def) blast
    with False len loop show ?thesis
      by (simp add: extractAbilities_def)
  next
    case True
    have val: "k < 5 \<Longrightarrow> abilities ! k = the (cellInt cells k)" for k
      using abilitiesLoop_values[of cells 0 "replicate 5 0" k] loop True len by simp
    have vals: "abilities ! 0 = the (cellInt cells 0)" "abilities ! 1 = the (cellInt cells 1)"
      "abilities ! 2 = the (cellInt cells 2)" "abilities ! 3 = the (cellInt cells 3)"
      "abilities ! 4 = the (cellInt cells 4)"
      by (simp_all add: val)
    from flag True len have "validAbilityRow cells = (0 < the (cellInt cells 0))"
      by (simp only: validAbilityRow_def) blast
    with len loop True vals show ?thesis
      by (simp add: extractAbilities_def)
  qed
qed

lemma extractAbilities_inv:
  "abilitiesAllOrNothing c \<Longrightarrow> abilitiesAllOrNothing (extractAbilities c cells)"
  by (simp add: extractAbilities_eq abilitiesAllOrNothing_def abilities5_def validAbilityRow_def)

lemma loyaltyLoop_abilities5 [simp]: "abilities5 (loyaltyLoop c cells k) = abilities5 c"
proof (induction c cells k rule: loyaltyLoop.induct)
  case (1 c cells k)
  then show ?case
    by (subst loyaltyLoop.simps) (simp split: option.splits)
qed

lemma personalityLoop_abilities5 [simp]: "abilities5 (personalityLoop c cells j) = abilities5 c"
proof (induction c cells j rule: personalityLoop.induct)
  case (1 c cells j)
  then show ?case
    by (subst personalityLoop.simps) (simp add: Let_def)
qed

lemma extractPersonalityAndLoyalty_abilities5 [simp]:
  "abilities5 (extractPersonalityAndLoyalty c cells) = abilities5 c"
  by (simp add: extractPersonalityAndLoyalty_def)

lemma strategyLoop_abilities5 [simp]: "abilities5 (strategyLoop c cells s k) = abilities5 c"
proof (induction c cells s k rule: strategyLoop.induct)
  case (1 c cells s k)
  then show ?case
    by (subst strategyLoop.simps) (simp add: Let_def)
qed

lemma extractGreed_abilities5 [simp]: "abilities5 (extractGreed c cells s) = abilities5 c"
  by (simp add: extractGreed_def Let_def)

lemma statusLoop_abilities5 [simp]: "abilities5 (statusLoop c cells j) = abilities5 c"
proof (induction c cells j rule: statusLoop.induct)
  case (1 c cells j)
  then show ?case
    by (subst statusLoop.simps) (simp add: Let_def extractStrategy_def)
qed

lemma extractStatusInfo_abilities5 [simp]:
  "abilities5 (extractStatusInfo c row cells) = abilities5 c"
  by (simp add: extractStatusInfo_def)

lemma abilitiesAllOrNothing_cong:
  "abilities5 c' = abilities5 c \<Longrightarrow> abilitiesAllOrNothing c' = abilitiesAllOrNothing c"
  by (simp add: abilitiesAllOrNothing_def abilities5_def)

lemma processTableRow_inv:
  assumes "abilitiesAllOrNothing c"
  shows "abilitiesAllOrNothing (processTableRow c row cells)"
proof -
  have "abilitiesAllOrNothing (extractAbilities c cells)"
    using assms by (rule extractAbilities_inv)
  moreover have "abilities5 (processTableRow c row cells) = abilities5 (extractAbilities c cells)"
    by (simp add: processTableRow_def)
  ultimately show ?thesis
    using abilitiesAllOrNothing_cong by blast
qed

lemma extractAbilitiesFromRows_inv:
  "abilitiesAllOrNothing c \<Longrightarrow> abilitiesAllOrNothing (extractAbilitiesFromRows c rows)"
  by (induction rows arbitrary: c) (simp_all add: processTableRow_inv)

lemma extractBasicInfoFromRows_abilities5 [simp]:
  "abilities5 (extractBasicInfoFromRows c rows) = abilities5 c"
  by (induction rows arbitrary: c) (simp_all add: Let_def split: option.splits)

lemma extractTalentFromTable_abilities5 [simp]:
  "abilities5 (extractTalentFromTable c table) = abilities5 c"
  by (simp add: extractTalentFromTable_def split: option.splits)

lemma classifiedTablesLoop_inv:
  "abilitiesAllOrNothing c \<Longrightarrow> abilitiesAllOrNothing (classifiedTablesLoop c tables)"
proof (induction tables arbitrary: c)
  case Nil
  then show ?case by simp
next
  case (Cons table tables)
  have talent: "abilitiesAllOrNothing d \<Longrightarrow> abilitiesAllOrNothing (extractTalentFromTable d table)"
    for d
    using abilitiesAllOrNothing_cong[OF extractTalentFromTable_abilities5] by blast
  have basic: "abilitiesAllOrNothing (extractBasicInfoFromTable c table)"
    using Cons.prems abilitiesAllOrNothing_cong[OF extractBasicInfoFromRows_abilities5]
    unfolding extractBasicInfoFromTable_def by blast
  have ability: "abilitiesAllOrNothing (extractAbilitiesFromTable c table)"
    using Cons.prems unfolding extractAbilitiesFromTable_def
    by (rule extractAbilitiesFromRows_inv)
  show ?case
    using Cons.prems basic talent[OF ability] talent[OF Cons.prems]
    by (simp add: Cons.IH)
qed

lemma talentFallbackLoop_abilities5 [simp]:
  "abilities5 (talentFallbackLoop c tables) = abilities5 c"
  by (induction tables arbitrary: c) (simp_all add: Let_def)

lemma extractFromTables_inv:
  assumes "abilitiesAllOrNothing c"
  shows "abilitiesAllOrNothing (extractFromTables c doc)"
proof -
  have "abilitiesAllOrNothing (classifiedTablesLoop c (findAllNodes doc ''table''))"
    using assms by (rule classifiedTablesLoop_inv)
  moreover have "abilitiesAllOrNothing (talentFallbackLoop d ts) = abilitiesAllOrNothing d" for d ts
    by (rule abilitiesAllOrNothing_cong) simp
  ultimately show ?thesis
    by (simp add: extractFromTables_def Let_def)
qed

lemma extractBasicInfo_inv: "abilitiesAllOrNothing (extractBasicInfo doc)"
proof -
  have "abilities5 (extractNameAndReading emptyCharacter doc) = abilities5 emptyCharacter"
    by (simp add: extractNameAndReading_def nameAndReadingOfText_def
        split: option.splits prod.splits)
  moreover have "abilitiesAllOrNothing emptyCharacter"
    by (simp add: abilitiesAllOrNothing_def abilities5_def emptyCharacter_def)
  ultimately have "abilitiesAllOrNothing (extractNameAndReading emptyCharacter doc)"
    using abilitiesAllOrNothing_cong by blast
  then have "abilitiesAllOrNothing (extractFromTables (extractNameAndReading emptyCharacter doc) doc)"
    by (rule extractFromTables_inv)
  moreover have "abilities5 (extractInterests d doc) = abilities5 d" for d
    by (simp add: extractInterests_def)
  ultimately show ?thesis
    unfolding extractBasicInfo_def using abilitiesAllOrNothing_cong by blast
qed

text \<open>
  C2.  \<^verbatim>\<open>extractAbilities\<close> writes leadership, force, intelligence, politics and charm
  from the first five cells of a row exactly when the row has five cells whose trimmed
  texts are all integers, the first of them positive; any other row leaves the record as
  it is.  So a record whose leadership is positive or whose five abilities are all zero
  stays so, and the record that \<^verbatim>\<open>extractBasicInfo\<close> assembles from a document is such
  a record: no quintuple is filled in part.
\<close>

theorem extractAbilities_all_or_nothing:
  "extractAbilities c cells =
     (if validAbilityRow cells
      then c\<lparr>Leadership := the (cellInt cells 0), Force := the (cellInt cells 1),
             Intelligence := the (cellInt cells 2), Politics := the (cellInt cells 3),
             Charm := the (cellInt cells 4)\<rparr>
      else c)
   \<and> (abilitiesAllOrNothing c \<longrightarrow> abilitiesAllOrNothing (extractAbilities c cells))
   \<and> abilitiesAllOrNothing (extractBasicInfo doc)"
  using extractAbilities_eq extractAbilities_inv extractBasicInfo_inv by blast

lemma row_120_valid:
  "validAbilityRow (map tdCell [''120'', ''95'', ''60'', ''70'', ''80''])"
  "map (\<lambda>i. the (cellInt (map tdCell [''120'', ''95'', ''60'', ''70'', ''80'']) i)) [0..<5]
     = [120, 95, 60, 70, 80]"
  by code_simp+

lemma rows_rejected:
  "\<not> validAbilityRow (map tdCell [''0'', ''95'', ''60'', ''70'', ''80''])"
  "\<not> validAbilityRow (map tdCell [''12'', ''x'', ''60'', ''70'', ''80''])"
  by code_simp+

theorem extractAbilities_all_or_nothing_witness:
  "extractAbilities emptyCharacter (map tdCell [''120'', ''95'', ''60'', ''70'', ''80'']) =
     emptyCharacter\<lparr>Leadership := 120, Force := 95, Intelligence := 60, Politics := 70,
       Charm := 80\<rparr>
   \<and> extractAbilities emptyCharacter (map tdCell [''0'', ''95'', ''60'', ''70'', ''80'']) =
       emptyCharacter
   \<and> extractAbilities emptyCharacter (map tdCell [''12'', ''x'', ''60'', ''70'', ''80'']) =
       emptyCharacter
   \<and> abilitiesAllOrNothing emptyCharacter
   \<and> abilitiesAllOrNothing
       (extractAbilities emptyCharacter (map tdCell [''120'', ''95'', ''60'', ''70'', ''80'']))"
proof -
  have zero: "abilitiesAllOrNothing emptyCharacter"
    by (simp add: abilitiesAllOrNothing_def abilities5_def emptyCharacter_def)
  have vals: "the (cellInt (map tdCell [''120'', ''95'', ''60'', ''70'', ''80'']) 0) = 120"
    "the (cellInt (map tdCell [''120'', ''95'', ''60'', ''70'', ''80'']) 1) = 95"
    "the (cellInt (map tdCell [''120'', ''95'', ''60'', ''70'', ''80'']) 2) = 60"
    "the (cellInt (map tdCell [''120'', ''95'', ''60'', ''70'', ''80'']) 3) = 70"
    "the (cellInt (map tdCell [''120'', ''95'', ''60'', ''70'', ''80'']) 4) = 80"
    using row_120_valid(2) by (simp_all add: upt_rec numeral_eq_Suc)
  show ?thesis
    using zero vals row_120_valid(1) rows_rejected
      extractAbilities_all_or_nothing
        [of emptyCharacter "map tdCell [''120'', ''95'', ''60'', ''70'', ''80'']" "textNode []"]
      extractAbilities_all_or_nothing
        [of emptyCharacter "map tdCell [''0'', ''95'', ''60'', ''70'', ''80'']" "textNode []"]
      extractAbilities_all_or_nothing
        [of emptyCharacter "map tdCell [''12'', ''x'', ''60'', ''70'', ''80'']" "textNode []"]
    by auto
qed

section \<open>Retries\<close>

lemma retryErrors_429: "containsAnyString ''429 Too Many Requests'' (RetryErrors rules)"
  by (simp add: rules_def hasPrefix_def)

lemma max_ne: "''429 Too Many Requests'' \<noteq> msgMaxRetries"
  by (simp add: msgMaxRetries_def)

lemma extractCharacterInfo_Inl:
  "net url (fetches w) = Inl e \<Longrightarrow>
     extractCharacterInfo net url w = (Inl e, w\<lparr>fetches := fetches w + 1\<rparr>)"
  by (simp add: extractCharacterInfo_def)

lemma extractCharacterInfo_Inr:
  "net url (fetches w) = Inr doc \<Longrightarrow>
     extractCharacterInfo net url w =
       (Inr ((extractBasicInfo doc)\<lparr>Tactics := fst (extractTacticsAndSkills doc),
              Skills := snd (extractTacticsAndSkills doc)\<rparr>),
        w\<lparr>fetches := fetches w + 1\<rparr>)"
  by (simp add: extractCharacterInfo_def split: prod.splits)

lemma retryLoop_error_from_network:
  "retryLoop net url attempt w = (Inl err, w') \<Longrightarrow> attempt < MaxRetries config \<Longrightarrow>
     \<exists>n. net url n = Inl err"
proof (induction net url attempt w rule: retryLoop.induct)
  case (1 net url attempt w)
  show ?case
  proof (cases "net url (fetches w)")
    case (Inr doc)
    with "1.prems" show ?thesis
      by (subst (asm) retryLoop.simps) (simp add: extractCharacterInfo_Inr)
  next
    case (Inl e)
    have step: "extractCharacterInfo net url w = (Inl e, w\<lparr>fetches := fetches w + 1\<rparr>)"
      using Inl by (rule extractCharacterInfo_Inl)
    show ?thesis
    proof (cases "shouldRetry e attempt (MaxRetries config)")
      case False
      with step "1.prems" have "err = e"
        by (subst (asm) retryLoop.simps) simp
      with Inl show ?thesis by blast
    next
      case True
      then have next_ok: "attempt + 1 < MaxRetries config"
        by (simp add: shouldRetry_def)
      from True step "1.prems" have loop:
        "retryLoop net url (attempt + 1)
           ((w\<lparr>fetches := fetches w + 1\<rparr>)
              \<lparr>sleeps := sleeps (w\<lparr>fetches := fetches w + 1\<rparr>) @ [BaseDelay config * (attempt + 1)]\<rparr>)
         = (Inl err, w')"
        by (subst (asm) retryLoop.simps) simp
      show ?thesis
        by (rule "1.IH"[OF "1.prems"(2) step[symmetric] refl True loop next_ok])
    qed
  qed
qed

lemma extractCharacterInfoWithRetry_error_from_network:
  "extractCharacterInfoWithRetry net url w = (Inl err, w') \<Longrightarrow> \<exists>n. net url n = Inl err"
  using retryLoop_error_from_network[of net url 0 w err w']
  by (simp add: extractCharacterInfoWithRetry_def config_def)

text \<open>
  C1.  Three attempts in a row that fail with \<^verbatim>\<open>429 Too Many Requests\<close>: the
  program sleeps \<open>BaseDelay * 1\<close> and \<open>BaseDelay * 2\<close> and then returns the error of the
  third attempt itself, which is not the error \<open>msgMaxRetries\<close> that the function
  builds after its loop (by \<open>extractCharacterInfoWithRetry_error_from_network\<close> it
  returns no error but one of the network's).  A first attempt that fails so and a second
  that succeeds: the record of the second, after one sleep of \<open>BaseDelay * 1\<close>.
\<close>

theorem retry_three_rate_limits:
  "extractCharacterInfoWithRetry (\<lambda>url n. Inl ''429 Too Many Requests'') url world0 =
     (Inl ''429 Too Many Requests'',
      \<lparr>fetches = 3, sleeps = [BaseDelay config * 1, BaseDelay config * 2], logged = []\<rparr>)
   \<and> ''429 Too Many Requests'' \<noteq> msgMaxRetries
   \<and> extractCharacterInfoWithRetry
       (\<lambda>url n. if n = 0 then Inl ''429 Too Many Requests'' else Inr doc) url world0 =
     (Inr ((extractBasicInfo doc)\<lparr>Tactics := fst (extractTacticsAndSkills doc),
            Skills := snd (extractTacticsAndSkills doc)\<rparr>),
      \<lparr>fetches = 2, sleeps = [BaseDelay config * 1], logged = []\<rparr>)"
  by (simp add: extractCharacterInfoWithRetry_def retryLoop.simps extractCharacterInfo_def
      shouldRetry_def retryErrors_429 max_ne world0_def config_def split: prod.splits)

section \<open>Errors in the batch\<close>

lemma hasPrefix_append [simp]: "hasPrefix (p @ s) p"
  by (simp add: hasPrefix_def)

lemma hasPrefix_Nil [simp]: "hasPrefix s []"
  by (simp add: hasPrefix_def)

lemma strContains_prefix: "hasPrefix s p \<Longrightarrow> strContains s p"
  by (cases s) (simp_all add: hasPrefix_def)

lemma strContains_append_left: "strContains s p \<Longrightarrow> strContains (a @ s) p"
  by (induction a) simp_all

lemma strContains_middle: "strContains (a @ url @ b) url"
  by (rule strContains_append_left) (simp add: strContains_prefix)

lemma processingErrorText_names_url: "strContains (processingErrorText url err) url"
  unfolding processingErrorText_def by (rule strContains_middle)

lemma isRateLimitError_eq:
  "isRateLimitError err =
     (strContains err ''429'' \<or> strContains err ''Too Many Requests'' \<or>
      strContains err msgMaxRetries)"
  by (simp add: isRateLimitError_def rules_def)

lemma retry_404:
  "extractCharacterInfoWithRetry (\<lambda>url n. Inl ''HTTP 404'') ''u1'' world0 =
     (Inl ''HTTP 404'', world0\<lparr>fetches := 1\<rparr>)"
  by (simp add: extractCharacterInfoWithRetry_def retryLoop.simps extractCharacterInfo_def
      shouldRetry_def world0_def config_def rules_def hasPrefix_def)

lemma retry_429:
  "extractCharacterInfoWithRetry (\<lambda>url n. Inl ''429 Too Many Requests'') ''u1'' world0 =
     (Inl ''429 Too Many Requests'',
      \<lparr>fetches = 3, sleeps = [BaseDelay config * 1, BaseDelay config * 2], logged = []\<rparr>)"
  by (simp add: extractCharacterInfoWithRetry_def retryLoop.simps extractCharacterInfo_def
      shouldRetry_def world0_def config_def rules_def hasPrefix_def)


text \<open>
  C5.  When \<^verbatim>\<open>extractCharacterInfoWithRetry\<close> returns an error for a URL: if the text of
  the error contains \<^verbatim>\<open>429\<close>, \<^verbatim>\<open>Too Many Requests\<close> or the message of exhausted
  retries, the run ends there with the fatal line logged, and no URL that is left is
  requested; with any other error, a line that names the URL is logged and the loop goes
  on with the next URL and the same list of records, so the failed URL adds none.
\<close>

theorem batch_error_policy:
  assumes "extractCharacterInfoWithRetry net url w = (Inl err, w1)"
  shows "processLoop net totalCount i (url # urls) characters w =
     (if strContains err ''429'' \<or> strContains err ''Too Many Requests'' \<or>
         strContains err msgMaxRetries
      then Exited (w1\<lparr>logged := logged w1 @ [msgRateLimited @ processingErrorText url err]\<rparr>)
      else processLoop net totalCount (i + 1) urls characters
             (w1\<lparr>logged := logged w1 @ [processingErrorText url err]\<rparr>))
   \<and> strContains (processingErrorText url err) url"
  using assms processingErrorText_names_url[of url err]
  by (simp add: handleProcessingError_def isRateLimitError_eq)


theorem batch_error_policy_witness:
  "processLoop (\<lambda>url n. Inl ''HTTP 404'') 1 0 [''u1''] [] world0 =
     Running [] (world0\<lparr>fetches := 1, logged := [processingErrorText ''u1'' ''HTTP 404'']\<rparr>)
   \<and> processLoop (\<lambda>url n. Inl ''429 Too Many Requests'') 2 0 [''u1'', ''u2''] [] world0 =
     Exited \<lparr>fetches = 3, sleeps = [BaseDelay config * 1, BaseDelay config * 2],
       logged = [msgRateLimited @ processingErrorText ''u1'' ''429 Too Many Requests'']\<rparr>"
proof -
  have a: "\<not> (strContains ''HTTP 404'' ''429'' \<or> strContains ''HTTP 404'' ''Too Many Requests'' \<or>
      strContains ''HTTP 404'' msgMaxRetries)"
    by (simp add: hasPrefix_def msgMaxRetries_def)
  have b: "strContains ''429 Too Many Requests'' ''429''"
    by (simp add: hasPrefix_def)
  have "processLoop (\<lambda>url n. Inl ''HTTP 404'') 1 0 [''u1''] [] world0 =
      processLoop (\<lambda>url n. Inl ''HTTP 404'') 1 (0 + 1) [] []
        (world0\<lparr>fetches := 1, logged := logged (world0\<lparr>fetches := 1\<rparr>) @
           [processingErrorText ''u1'' ''HTTP 404'']\<rparr>)"
    using batch_error_policy[OF retry_404, of 1 0 "[]" "[]"] a
    by (simp del: processLoop.simps strContains.simps)
  moreover have "processLoop (\<lambda>url n. Inl ''429 Too Many Requests'') 2 0 [''u1'', ''u2''] [] world0 =
      Exited (\<lparr>fetches = 3, sleeps = [BaseDelay config * 1, BaseDelay config * 2], logged = []\<rparr>
        \<lparr>logged := [] @ [msgRateLimited @ processingErrorText ''u1'' ''429 Too Many Requests'']\<rparr>)"
    using batch_error_policy[OF retry_429, of 2 0 "[''u2'']" "[]"] b
    by (simp del: processLoop.simps strContains.simps)
  ultimately show ?thesis
    by (simp add: world0_def)
qed

section \<open>Fame, greed and strategy of a row\<close>

lemma statusLoop_found:
  "fameFoundAt cells j \<Longrightarrow> i \<le> j \<Longrightarrow>
   statusLoop c cells i =
     extractStrategy (extractGreed (c\<lparr>Fame := cellText cells j\<rparr>) cells j) cells j"
proof (induction c cells i rule: statusLoop.induct)
  case (1 c cells i)
  show ?case
  proof (cases "i = j")
    case True
    with "1.prems" show ?thesis
      by (subst statusLoop.simps) (simp add: fameFoundAt_def cellText_def Let_def)
  next
    case False
    with "1.prems" have lt: "i < j" by simp
    with "1.prems" have notfame: "cellText cells i \<notin> set (FameTypes rules)" and len: "i < length cells"
      by (simp_all add: fameFoundAt_def list_all_iff)
    from lt have "i + 1 \<le> j" by simp
    with "1.IH"[OF len refl] notfame "1.prems"(1)
    have "statusLoop c cells (i + 1) =
        extractStrategy (extractGreed (c\<lparr>Fame := cellText cells j\<rparr>) cells j) cells j"
      by (simp add: cellText_def)
    with notfame len show ?thesis
      by (subst statusLoop.simps) (simp add: cellText_def Let_def)
  qed
qed

lemma extractStatusInfo_found:
  "isDataRow row cells \<Longrightarrow> fameFoundAt cells j \<Longrightarrow>
   extractStatusInfo c row cells =
     extractStrategy (extractGreed (c\<lparr>Fame := cellText cells j\<rparr>) cells j) cells j"
  using statusLoop_found[of cells j 0 c]
  by (simp add: extractStatusInfo_def isDataRow_def)

lemma extractGreed_eq:
  "extractGreed c cells j =
     (if j + 1 < length cells \<and> \<not> greedSuppressed (cellText cells (j + 1))
      then c\<lparr>Greed := cellText cells (j + 1)\<rparr> else c)"
  by (simp add: extractGreed_def greedSuppressed_def cellText_def Let_def)

lemma strategyLoop_Greed [simp]: "Greed (strategyLoop c cells s k) = Greed c"
proof (induction c cells s k rule: strategyLoop.induct)
  case (1 c cells s k)
  then show ?case
    by (subst strategyLoop.simps) (simp add: Let_def)
qed

lemma no_commit_blank: "\<not> commitsStrategy []" "\<not> commitsStrategy ja_choon"
  by (simp_all add: commitsStrategy_def rules_def ja_choon_def ja_kosen_def ja_futsu_def
      ja_sekkyoku_def ja_shokyoku_def ja_shiyoku_def)

lemma strategyLoop_step:
  "k < j + 4 \<Longrightarrow>
   strategyLoop c cells j k =
     (if k < length cells
      then (if commitsStrategy (cellText cells k) then c\<lparr>Strategy := cellText cells k\<rparr>
            else strategyLoop c cells j (k + 1))
      else c)"
  using no_commit_blank
  by (subst strategyLoop.simps) (auto simp: Let_def cellText_def commitsStrategy_def)

lemma strategyLoop_end: "strategyLoop c cells j (j + 3 + 1) = c"
  by (subst strategyLoop.simps) simp

lemma extractStrategy_eq:
  "extractStrategy c cells j =
     (case find commitsStrategy (strategyCandidates cells j) of
        None \<Rightarrow> c
      | Some t \<Rightarrow> c\<lparr>Strategy := t\<rparr>)"
proof -
  have 3: "strategyLoop c cells j (j + 3) =
      (if j + 3 < length cells
       then (if commitsStrategy (cellText cells (j + 3)) then c\<lparr>Strategy := cellText cells (j + 3)\<rparr>
             else c)
       else c)"
    using strategyLoop_step[of "j + 3" j c cells] by (simp only: strategyLoop_end)
  have e: "j + 2 + 1 = j + 3" by simp
  have 2: "strategyLoop c cells j (j + 2) =
      (if j + 2 < length cells
       then (if commitsStrategy (cellText cells (j + 2)) then c\<lparr>Strategy := cellText cells (j + 2)\<rparr>
             else strategyLoop c cells j (j + 3))
       else c)"
    using strategyLoop_step[of "j + 2" j c cells] by (simp only: e)
  show ?thesis
    unfolding extractStrategy_def 2 3 strategyCandidates_def by auto
qed

lemma extractGreed_Strategy [simp]: "Strategy (extractGreed c cells j) = Strategy c"
  by (simp add: extractGreed_def Let_def)

lemma greedRow_facts:
  "isDataRow (element ''tr'' [] (greedRow ''rich'')) (greedRow ''rich'')"
  "isDataRow (element ''tr'' [] (greedRow [])) (greedRow [])"
  "isDataRow (element ''tr'' [] (greedRow ''-'')) (greedRow ''-'')"
  "isDataRow (element ''tr'' [] (greedRow ja_choon)) (greedRow ja_choon)"
  "fameFoundAt (greedRow ''rich'') 0" "fameFoundAt (greedRow []) 0"
  "fameFoundAt (greedRow ''-'') 0" "fameFoundAt (greedRow ja_choon) 0"
  "cellText (greedRow ''rich'') (0 + 1) = ''rich''" "cellText (greedRow []) (0 + 1) = []"
  "cellText (greedRow ''-'') (0 + 1) = ''-''" "cellText (greedRow ja_choon) (0 + 1) = ja_choon"
  "\<not> greedSuppressed ''rich''"
  by code_simp+

lemma getNodeText_tdCell [simp]: "getNodeText (tdCell s) = s"
  by (simp add: tdCell_def element_def textNode_def)

lemma trimSpace_words: "trimSpace ja_choon = ja_choon" "trimSpace ja_kosen = ja_kosen"
  by code_simp+

lemma commits_kosen: "commitsStrategy ja_kosen"
  by (simp add: commitsStrategy_def rules_def)

lemma strategyRow_facts:
  "isDataRow (element ''tr'' [] strategyRow) strategyRow"
  "fameFoundAt strategyRow 0"
  "find commitsStrategy (strategyCandidates strategyRow 0) = Some ja_kosen"
  by code_simp+

text \<open>
  C8, as the program has it.  \<^verbatim>\<open>extractGreed\<close> writes the trimmed text of cell
  \<open>j + 1\<close> as the greed exactly when that cell exists and its trimmed text is none of the
  empty text, \<^verbatim>\<open>-\<close> and the long-vowel mark; otherwise it leaves the record as it is.
  So in a data row whose fame is found at cell \<open>j\<close>, the greed after
  \<^verbatim>\<open>extractStatusInfo\<close> is that text, kept as it is, or else the greed that the record
  had before the row: empty when it was empty, and the greed of an earlier row otherwise.
\<close>

theorem greed_after_fame:
  "extractGreed c cells j =
     (if j + 1 < length cells \<and> \<not> greedSuppressed (cellText cells (j + 1))
      then c\<lparr>Greed := cellText cells (j + 1)\<rparr> else c)
   \<and> (isDataRow row cells \<and> fameFoundAt cells j \<longrightarrow>
        Greed (extractStatusInfo c row cells) =
          (if j + 1 < length cells \<and> \<not> greedSuppressed (cellText cells (j + 1))
           then cellText cells (j + 1) else Greed c))"
proof (intro conjI impI)
  show "extractGreed c cells j =
     (if j + 1 < length cells \<and> \<not> greedSuppressed (cellText cells (j + 1))
      then c\<lparr>Greed := cellText cells (j + 1)\<rparr> else c)"
    by (rule extractGreed_eq)
next
  assume "isDataRow row cells \<and> fameFoundAt cells j"
  then have "extractStatusInfo c row cells =
      extractStrategy (extractGreed (c\<lparr>Fame := cellText cells j\<rparr>) cells j) cells j"
    by (simp add: extractStatusInfo_found)
  then show "Greed (extractStatusInfo c row cells) =
          (if j + 1 < length cells \<and> \<not> greedSuppressed (cellText cells (j + 1))
           then cellText cells (j + 1) else Greed c)"
    by (simp add: extractStrategy_def extractGreed_eq)
qed

theorem greed_after_fame_witness:
  "Greed (extractStatusInfo emptyCharacter (element ''tr'' [] (greedRow ''rich'')) (greedRow ''rich''))
     = ''rich''
   \<and> Greed (extractStatusInfo emptyCharacter (element ''tr'' [] (greedRow [])) (greedRow [])) = []
   \<and> Greed (extractStatusInfo emptyCharacter (element ''tr'' [] (greedRow ''-'')) (greedRow ''-'')) = []
   \<and> Greed (extractStatusInfo emptyCharacter (element ''tr'' [] (greedRow ja_choon)) (greedRow ja_choon))
       = []"
proof -
  have len: "length (greedRow g) = 3" for g by (simp add: greedRow_def)
  have empty: "Greed emptyCharacter = []" by (simp add: emptyCharacter_def)
  show ?thesis
    using greed_after_fame[of emptyCharacter "greedRow ''rich''" 0 "element ''tr'' [] (greedRow ''rich'')"]
      greed_after_fame[of emptyCharacter "greedRow []" 0 "element ''tr'' [] (greedRow [])"]
      greed_after_fame[of emptyCharacter "greedRow ''-''" 0 "element ''tr'' [] (greedRow ''-'')"]
      greed_after_fame[of emptyCharacter "greedRow ja_choon" 0 "element ''tr'' [] (greedRow ja_choon)"]
      greedRow_facts
    by (simp add: len empty greedSuppressed_def)
qed

text \<open>
  A table of two data rows, the first with a greed and the second with \<^verbatim>\<open>-\<close> after
  its fame: after the second row the greed is that of the first row, not empty.
\<close>

theorem greed_kept_from_earlier_row_counterexample:
  "findAllNodes (element ''tr'' [] (greedRow ''-'')) ''td'' = greedRow ''-''
   \<and> isDataRow (element ''tr'' [] (greedRow ''-'')) (greedRow ''-'')
   \<and> fameFoundAt (greedRow ''-'') 0
   \<and> cellText (greedRow ''-'') 1 = ''-''
   \<and> Greed (extractAbilitiesFromRows emptyCharacter [element ''tr'' [] (greedRow ''rich'')]) = ''rich''
   \<and> Greed (extractAbilitiesFromRows emptyCharacter
         [element ''tr'' [] (greedRow ''rich''), element ''tr'' [] (greedRow ''-'')]) = ''rich''
   \<and> Greed (extractStatusInfo (emptyCharacter\<lparr>Greed := ''rich''\<rparr>)
         (element ''tr'' [] (greedRow ''-'')) (greedRow ''-'')) = ''rich''"
  by code_simp

text \<open>
  C7.  \<^verbatim>\<open>extractStrategy\<close> reads the cells \<open>j + 2\<close> and \<open>j + 3\<close> only, as far as
  they exist; the first of them whose trimmed text is in the vocabulary of strategies or
  is \<^verbatim>\<open>-\<close> becomes the strategy and ends the scan; every other text, the empty text
  and the long-vowel mark among them, is passed over.  In a data row whose fame is found at
  cell \<open>j\<close> this is the strategy after \<^verbatim>\<open>extractStatusInfo\<close>.  On the cells fame,
  greed, long-vowel mark, \<open>ja_kosen\<close> the strategy is \<open>ja_kosen\<close>.
\<close>

theorem strategy_scan:
  "extractStrategy c cells j =
     (case find commitsStrategy (strategyCandidates cells j) of
        None \<Rightarrow> c
      | Some t \<Rightarrow> c\<lparr>Strategy := t\<rparr>)
   \<and> (isDataRow row cells \<and> fameFoundAt cells j \<longrightarrow>
        Strategy (extractStatusInfo c row cells) =
          (case find commitsStrategy (strategyCandidates cells j) of
             None \<Rightarrow> Strategy c
           | Some t \<Rightarrow> t))
   \<and> extractStrategy c [fame, greed, tdCell ja_choon, tdCell ja_kosen] 0 =
       c\<lparr>Strategy := ja_kosen\<rparr>"
proof (intro conjI impI)
  show "extractStrategy c cells j =
     (case find commitsStrategy (strategyCandidates cells j) of
        None \<Rightarrow> c
      | Some t \<Rightarrow> c\<lparr>Strategy := t\<rparr>)"
    by (rule extractStrategy_eq)
next
  assume "isDataRow row cells \<and> fameFoundAt cells j"
  then have "extractStatusInfo c row cells =
      extractStrategy (extractGreed (c\<lparr>Fame := cellText cells j\<rparr>) cells j) cells j"
    by (simp add: extractStatusInfo_found)
  then show "Strategy (extractStatusInfo c row cells) =
          (case find commitsStrategy (strategyCandidates cells j) of
             None \<Rightarrow> Strategy c
           | Some t \<Rightarrow> t)"
    by (simp add: extractStrategy_eq split: option.splits)
next
  have "strategyCandidates [fame, greed, tdCell ja_choon, tdCell ja_kosen] 0 = [ja_choon, ja_kosen]"
    by (simp add: strategyCandidates_def cellText_def trimSpace_words)
  then show "extractStrategy c [fame, greed, tdCell ja_choon, tdCell ja_kosen] 0 =
       c\<lparr>Strategy := ja_kosen\<rparr>"
    by (simp add: extractStrategy_eq no_commit_blank commits_kosen)
qed

theorem strategy_scan_witness:
  "Strategy (extractStatusInfo emptyCharacter (element ''tr'' [] strategyRow) strategyRow) = ja_kosen
   \<and> Greed (extractStatusInfo emptyCharacter (element ''tr'' [] strategyRow) strategyRow) = ''rich''"
proof -
  have "Greed (extractStatusInfo emptyCharacter (element ''tr'' [] strategyRow) strategyRow) = ''rich''"
    by code_simp
  then show ?thesis
    using strategy_scan[of emptyCharacter strategyRow 0 "element ''tr'' [] strategyRow"]
      strategyRow_facts
    by simp
qed

section \<open>Personality and loyalty of a row\<close>

lemma loyaltyLoop_none:
  "list_all (\<lambda>k. cellInt cells k = None) [k0..<length cells] \<Longrightarrow> loyaltyLoop c cells k0 = c"
proof (induction c cells k0 rule: loyaltyLoop.induct)
  case (1 c cells k)
  show ?case
  proof (cases "k < length cells")
    case False
    then show ?thesis by (subst loyaltyLoop.simps) simp
  next
    case True
    with "1.prems" have none: "cellInt cells k = None"
      and rest: "list_all (\<lambda>k. cellInt cells k = None) [k + 1..<length cells]"
      by (simp_all add: upt_conv_Cons)
    from "1.IH"[OF True _ rest] none have "loyaltyLoop c cells (k + 1) = c"
      by (simp add: cellInt_def cellText_def)
    with True none show ?thesis
      by (subst loyaltyLoop.simps) (simp add: cellInt_def cellText_def)
  qed
qed

lemma personalityLoop_found:
  "personalityFoundAt cells j \<Longrightarrow> i \<le> j \<Longrightarrow>
   personalityLoop c cells i = loyaltyLoop (c\<lparr>Personality := cellText cells j\<rparr>) cells (j + 1)"
proof (induction c cells i rule: personalityLoop.induct)
  case (1 c cells i)
  show ?case
  proof (cases "i = j")
    case True
    with "1.prems" show ?thesis
      by (subst personalityLoop.simps) (simp add: personalityFoundAt_def cellText_def Let_def)
  next
    case False
    with "1.prems" have lt: "i < j" by simp
    with "1.prems" have notp: "cellText cells i \<notin> set (PersonalityTypes rules)"
      and len: "i < length cells"
      by (simp_all add: personalityFoundAt_def list_all_iff)
    from lt have "i + 1 \<le> j" by simp
    with "1.IH"[OF len refl] notp "1.prems"(1)
    have "personalityLoop c cells (i + 1) =
        loyaltyLoop (c\<lparr>Personality := cellText cells j\<rparr>) cells (j + 1)"
      by (simp add: cellText_def)
    with notp len show ?thesis
      by (subst personalityLoop.simps) (simp add: cellText_def Let_def)
  qed
qed

lemma otherFields_update [simp]:
  "otherFields (c\<lparr>Loyalty := l\<rparr>) = otherFields c"
  "otherFields (c\<lparr>Personality := p\<rparr>) = otherFields c"
  by (simp_all add: otherFields_def)

lemma loyaltyLoop_frame [simp]: "otherFields (loyaltyLoop c cells k) = otherFields c"
proof (induction c cells k rule: loyaltyLoop.induct)
  case (1 c cells k)
  then show ?case
    by (subst loyaltyLoop.simps) (simp split: option.splits)
qed

lemma personalityLoop_frame [simp]: "otherFields (personalityLoop c cells j) = otherFields c"
proof (induction c cells j rule: personalityLoop.induct)
  case (1 c cells j)
  then show ?case
    by (subst personalityLoop.simps) (simp add: Let_def)
qed

lemma extractPersonalityAndLoyalty_frame:
  "otherFields (extractPersonalityAndLoyalty c cells) = otherFields c"
  by (simp add: extractPersonalityAndLoyalty_def)

lemma calmRow_facts:
  "personalityFoundAt calmRow 0" "noIntegerAfter calmRow 0" "cellText calmRow 0 = ja_reisei"
  by code_simp+

text \<open>
  C10, as the program has it.  In a row of at least two cells whose first cell with a
  personality of the vocabulary is cell \<open>j\<close>, and with no integer in a cell after \<open>j\<close>,
  \<^verbatim>\<open>extractPersonalityAndLoyalty\<close> writes the personality and leaves the loyalty at
  the value it had.  A row of fewer than two cells changes nothing.  On every row, it
  changes no field but personality and loyalty.
\<close>

theorem personality_without_loyalty:
  "(2 \<le> length cells \<and> personalityFoundAt cells j \<and> noIntegerAfter cells j \<longrightarrow>
      extractPersonalityAndLoyalty c cells = c\<lparr>Personality := cellText cells j\<rparr>)
   \<and> (length cells < 2 \<longrightarrow> extractPersonalityAndLoyalty c cells = c)
   \<and> otherFields (extractPersonalityAndLoyalty c cells) = otherFields c"
proof (intro conjI impI)
  assume a: "2 \<le> length cells \<and> personalityFoundAt cells j \<and> noIntegerAfter cells j"
  then have "personalityLoop c cells 0 =
      loyaltyLoop (c\<lparr>Personality := cellText cells j\<rparr>) cells (j + 1)"
    using personalityLoop_found[of cells j 0 c] by simp
  also have "\<dots> = c\<lparr>Personality := cellText cells j\<rparr>"
    using a loyaltyLoop_none[of cells "j + 1" "c\<lparr>Personality := cellText cells j\<rparr>"]
    by (simp add: noIntegerAfter_def)
  finally show "extractPersonalityAndLoyalty c cells = c\<lparr>Personality := cellText cells j\<rparr>"
    using a by (simp add: extractPersonalityAndLoyalty_def)
next
  assume "length cells < 2"
  then show "extractPersonalityAndLoyalty c cells = c"
    by (simp add: extractPersonalityAndLoyalty_def)
next
  show "otherFields (extractPersonalityAndLoyalty c cells) = otherFields c"
    by (rule extractPersonalityAndLoyalty_frame)
qed

theorem personality_without_loyalty_witness:
  "extractPersonalityAndLoyalty (emptyCharacter\<lparr>Loyalty := 7\<rparr>) calmRow =
     emptyCharacter\<lparr>Loyalty := 7, Personality := ja_reisei\<rparr>
   \<and> Loyalty (extractPersonalityAndLoyalty (emptyCharacter\<lparr>Loyalty := 7\<rparr>) calmRow) = 7
   \<and> extractPersonalityAndLoyalty (emptyCharacter\<lparr>Loyalty := 7\<rparr>) [tdCell ja_reisei] =
       emptyCharacter\<lparr>Loyalty := 7\<rparr>"
proof -
  have "2 \<le> length calmRow" by (simp add: calmRow_def)
  moreover have "length [tdCell ja_reisei] < 2" by simp
  ultimately show ?thesis
    using personality_without_loyalty[of calmRow 0 "emptyCharacter\<lparr>Loyalty := 7\<rparr>"]
      personality_without_loyalty[of "[tdCell ja_reisei]" 0 "emptyCharacter\<lparr>Loyalty := 7\<rparr>"]
      calmRow_facts
    by simp
qed

text \<open>
  A row of one cell is returned from at once: its personality is not written, although
  the cell holds one and no integer follows.
\<close>

theorem personality_single_cell_counterexample:
  "cellText [tdCell ja_reisei] 0 = ja_reisei \<and> ja_reisei \<in> set (PersonalityTypes rules)
   \<and> noIntegerAfter [tdCell ja_reisei] 0
   \<and> Personality (extractPersonalityAndLoyalty emptyCharacter [tdCell ja_reisei]) = []
   \<and> ja_reisei \<noteq> []"
  by code_simp

section \<open>Tactics and skills\<close>

lemma cleanTacticSkillText_eq:
  "cleanTacticSkillText text = trimSpace (takeWhile (\<lambda>c. c \<noteq> CHR ''('') text)"
proof (cases "CHR ''('' \<in> set text")
  case True
  then show ?thesis by (simp add: cleanTacticSkillText_def strCut_def)
next
  case False
  then have "\<forall>c\<in>set text. c \<noteq> CHR ''(''" by blast
  then have "takeWhile (\<lambda>c. c \<noteq> CHR ''('') text = text"
    by (simp only: takeWhile_eq_all_conv)
  moreover from False have "cleanTacticSkillText text = trimSpace text"
    by (simp add: cleanTacticSkillText_def strCut_def)
  ultimately show ?thesis by (simp only:)
qed

lemma skillCellsLoop_eq:
  "skillCellsLoop cells isCategory items = items @ cleanedItems cells isCategory"
  by (induction cells arbitrary: items)
    (simp_all add: cleanedItems_def cleanTacticSkillText_eq Let_def)

lemma cleanedItems_append:
  "cleanedItems (xs @ ys) isCategory = cleanedItems xs isCategory @ cleanedItems ys isCategory"
  by (simp add: cleanedItems_def)

lemma skillRowsLoop_eq:
  "skillRowsLoop rows isCategory items =
     items @ cleanedItems (concat (map (\<lambda>row. findAllNodes row ''td'') rows)) isCategory"
proof (induction rows arbitrary: items)
  case Nil
  show ?case by (simp add: cleanedItems_def)
next
  case (Cons row rows)
  show ?case
    by (simp add: Cons.IH skillCellsLoop_eq cleanedItems_append)
qed

lemma extractFromSkillTable_eq:
  "extractFromSkillTable table isCategory = cleanedItems (cellsByRow table) isCategory"
  by (simp add: extractFromSkillTable_def skillRowsLoop_eq cellsByRow_def)

lemma tacticsAndSkillsLoop_step:
  "tacticsAndSkillsLoop (table # tables) (tactics, skills) =
     tacticsAndSkillsLoop tables
       (if isTacticsTable table then (extractFromSkillTable table isTacticCategory, skills)
        else if isSkillsTable table then (tactics, extractFromSkillTable table isSkillCategory)
        else (tactics, skills))"
  by (simp add: isTacticsTable_def isSkillsTable_def)

lemma tactics_not_skills: "isTacticsTable table \<Longrightarrow> \<not> isSkillsTable table"
  by (simp add: isTacticsTable_def isSkillsTable_def)

lemma tacticsAndSkillsLoop_eq:
  "tacticsAndSkillsLoop tables (tactics, skills) =
     (if filter isTacticsTable tables = [] then tactics
      else extractFromSkillTable (last (filter isTacticsTable tables)) isTacticCategory,
      if filter isSkillsTable tables = [] then skills
      else extractFromSkillTable (last (filter isSkillsTable tables)) isSkillCategory)"
proof (induction tables arbitrary: tactics skills)
  case Nil
  show ?case by simp
next
  case (Cons table tables)
  show ?case
  proof (cases "isTacticsTable table")
    case True
    then show ?thesis
      using tactics_not_skills[OF True]
      by (simp add: tacticsAndSkillsLoop_step Cons.IH del: tacticsAndSkillsLoop.simps)
  next
    case False
    then show ?thesis
      by (simp add: tacticsAndSkillsLoop_step Cons.IH del: tacticsAndSkillsLoop.simps)
  qed
qed

lemma extractTacticsAndSkills_eq:
  "extractTacticsAndSkills doc =
     (strJoin (lastTableItems isTacticsTable isTacticCategory (findAllNodes doc ''table'')) '', '',
      strJoin (lastTableItems isSkillsTable isSkillCategory (findAllNodes doc ''table'')) '', '')"
  by (simp add: extractTacticsAndSkills_def tacticsAndSkillsLoop_eq lastTableItems_def
      extractFromSkillTable_eq)

text \<open>
  C4, as the program has it.  Each table of tactics replaces the list of the table before:
  the tactics are the items of the last table that contains the header of the tactics, joined
  with a comma and a space, and the skills those of the last table that contains the header
  of the skills and not that of the tactics; with no such table, the empty text.  Of two
  tables of tactics with the items \<^verbatim>\<open>A\<close> and \<^verbatim>\<open>B\<close>, the tactics are \<^verbatim>\<open>B\<close>.
\<close>

theorem tactics_last_table_wins:
  "extractTacticsAndSkills doc =
     (strJoin (lastTableItems isTacticsTable isTacticCategory (findAllNodes doc ''table'')) '', '',
      strJoin (lastTableItems isSkillsTable isSkillCategory (findAllNodes doc ''table'')) '', '')
   \<and> extractTacticsAndSkills twoTacticsDoc = (''B'', [])"
proof
  show "extractTacticsAndSkills doc =
     (strJoin (lastTableItems isTacticsTable isTacticCategory (findAllNodes doc ''table'')) '', '',
      strJoin (lastTableItems isSkillsTable isSkillCategory (findAllNodes doc ''table'')) '', '')"
    by (rule extractTacticsAndSkills_eq)
next
  show "extractTacticsAndSkills twoTacticsDoc = (''B'', [])"
    by code_simp
qed

theorem tactics_last_table_wins_witness:
  "lastTableItems isTacticsTable isTacticCategory (findAllNodes twoTacticsDoc ''table'') = [''B'']
   \<and> fst (extractTacticsAndSkills twoTacticsDoc) = ''B''"
proof -
  have "lastTableItems isTacticsTable isTacticCategory (findAllNodes twoTacticsDoc ''table'') = [''B'']"
    by code_simp
  then show ?thesis
    using tactics_last_table_wins[of twoTacticsDoc] by simp
qed

text \<open>
  The two tables are both tables of tactics; their items together would be \<^verbatim>\<open>A, B\<close>,
  and the program returns \<^verbatim>\<open>B\<close>.
\<close>

theorem tactics_accumulation_counterexample:
  "filter isTacticsTable (findAllNodes twoTacticsDoc ''table'') =
     [headedTable ja_senpo ''A'', headedTable ja_senpo ''B'']
   \<and> strJoin (accumulatedItems isTacticsTable isTacticCategory (findAllNodes twoTacticsDoc ''table''))
       '', '' = ''A, B''
   \<and> fst (extractTacticsAndSkills twoTacticsDoc) = ''B''"
  by code_simp

text \<open>
  C9, as the program has it.  A table whose text contains the header of the tactics and the
  header of the skills takes the first case of the switch: its step sets the tactics from
  it and leaves the skills as they are, and the skills of a pass over any tables are the
  same with the table taken out.  What the skills hold comes from the other tables, a
  table nested in this one among them.
\<close>

theorem both_headers_table_is_tactics_only:
  "containsAnyTexts table (TacticsHeaders rules) \<and> containsAnyTexts table (SkillsHeaders rules) \<longrightarrow>
     tacticsAndSkillsLoop (table # tables) (tactics, skills) =
       tacticsAndSkillsLoop tables (extractFromSkillTable table isTacticCategory, skills)
     \<and> snd (tacticsAndSkillsLoop (before @ table # tables) (tactics, skills)) =
         snd (tacticsAndSkillsLoop (before @ tables) (tactics, skills))"
proof (intro impI conjI)
  assume both: "containsAnyTexts table (TacticsHeaders rules) \<and>
    containsAnyTexts table (SkillsHeaders rules)"
  then show "tacticsAndSkillsLoop (table # tables) (tactics, skills) =
      tacticsAndSkillsLoop tables (extractFromSkillTable table isTacticCategory, skills)"
    by simp
  from both have "\<not> isSkillsTable table" by (simp add: isSkillsTable_def)
  then have "filter isSkillsTable (before @ table # tables) = filter isSkillsTable (before @ tables)"
    by simp
  then show "snd (tacticsAndSkillsLoop (before @ table # tables) (tactics, skills)) =
      snd (tacticsAndSkillsLoop (before @ tables) (tactics, skills))"
    by (simp only: tacticsAndSkillsLoop_eq snd_conv)
qed

lemma bothHeadersTable_facts:
  "containsAnyTexts bothHeadersTable (TacticsHeaders rules)"
  "containsAnyTexts bothHeadersTable (SkillsHeaders rules)"
  "extractFromSkillTable bothHeadersTable isTacticCategory = [''X'']"
  by code_simp+

theorem both_headers_table_is_tactics_only_witness:
  "tacticsAndSkillsLoop [bothHeadersTable] ([], []) = ([''X''], [])
   \<and> snd (tacticsAndSkillsLoop [headedTable ja_tokugi ''S'', bothHeadersTable] ([], [])) =
       snd (tacticsAndSkillsLoop [headedTable ja_tokugi ''S''] ([], []))
   \<and> extractTacticsAndSkills (element ''body'' [] [bothHeadersTable]) = (''X'', [])"
proof -
  have "extractTacticsAndSkills (element ''body'' [] [bothHeadersTable]) = (''X'', [])"
    by code_simp
  then show ?thesis
    using both_headers_table_is_tactics_only[of bothHeadersTable "[]" "[]" "[]" "[]"]
      both_headers_table_is_tactics_only
        [of bothHeadersTable "[]" "[]" "[]" "[headedTable ja_tokugi ''S'']"]
      bothHeadersTable_facts
    by (simp del: tacticsAndSkillsLoop.simps(2))
qed

text \<open>
  A table with the header of the tactics that holds, in one of its cells, a table with the
  header of the skills: the outer table contains both headers, the cell \<^verbatim>\<open>S\<close> is one of
  the cells the program reads in it, and the skills are \<^verbatim>\<open>S\<close>, read from the inner
  table.
\<close>

theorem nested_skills_table_counterexample:
  "containsAnyTexts nestedSkillsTable (TacticsHeaders rules)
   \<and> containsAnyTexts nestedSkillsTable (SkillsHeaders rules)
   \<and> styledCell ''width:70px'' ''S'' \<in> set (cellsByRow nestedSkillsTable)
   \<and> findAllNodes (element ''body'' [] [nestedSkillsTable]) ''table'' =
       [nestedSkillsTable, headedTable ja_tokugi ''S'']
   \<and> extractTacticsAndSkills (element ''body'' [] [nestedSkillsTable]) = (''S, S'', ''S'')"
  by code_simp

section \<open>The fallback for the talent\<close>

lemma find_app:
  "find P (xs @ ys) = (case find P xs of Some x \<Rightarrow> Some x | None \<Rightarrow> find P ys)"
  by (induction xs) simp_all

lemma talentOfCells_eq:
  "talentOfCells cells = map_option (\<lambda>cell. trimSpace (getNodeText cell)) (find goldCell cells)"
  by (induction cells) (simp_all add: goldCell_def)

lemma talentOfRows_eq:
  "talentOfRows rows =
     map_option (\<lambda>cell. trimSpace (getNodeText cell))
       (find goldCell (concat (map (\<lambda>row. findAllNodes row ''td'') rows)))"
  by (induction rows) (simp_all add: talentOfCells_eq find_app split: option.splits)

lemma extractTalentFromTable_eq:
  "extractTalentFromTable c table =
     (case guardedTalent table of None \<Rightarrow> c | Some found \<Rightarrow> c\<lparr>Talent := found\<rparr>)"
  by (simp add: extractTalentFromTable_def guardedTalent_def goldTalent_def cellsByRow_def
      talentOfRows_eq)

lemma extractTalentFromTable_unguarded_eq:
  "extractTalentFromTable_unguarded c table =
     (case goldTalent table of None \<Rightarrow> c | Some found \<Rightarrow> c\<lparr>Talent := found\<rparr>)"
  by (simp add: extractTalentFromTable_unguarded_def goldTalent_def cellsByRow_def talentOfRows_eq)

lemma talentFallbackLoop_eq:
  "Talent c = [] \<Longrightarrow>
   talentFallbackLoop c tables = c\<lparr>Talent := firstTalent guardedTalent tables\<rparr>"
proof (induction tables arbitrary: c)
  case Nil
  then show ?case by (simp add: firstTalent_def)
next
  case (Cons table tables)
  show ?case
  proof (cases "guardedTalent table")
    case None
    with Cons show ?thesis
      by (simp add: extractTalentFromTable_eq firstTalent_def yieldsTalent_def Let_def)
  next
    case (Some found)
    show ?thesis
    proof (cases "found = []")
      case True
      with Some Cons.prems have "extractTalentFromTable c table = c"
        by (simp add: extractTalentFromTable_eq)
      with Some True Cons show ?thesis
        by (simp add: firstTalent_def yieldsTalent_def Let_def)
    next
      case False
      with Some show ?thesis
        by (simp add: extractTalentFromTable_eq firstTalent_def yieldsTalent_def Let_def)
    qed
  qed
qed

lemma talentFallbackLoop_unguarded_eq:
  "Talent c = [] \<Longrightarrow>
   talentFallbackLoop_unguarded c tables = c\<lparr>Talent := firstTalent goldTalent tables\<rparr>"
proof (induction tables arbitrary: c)
  case Nil
  then show ?case by (simp add: firstTalent_def)
next
  case (Cons table tables)
  show ?case
  proof (cases "goldTalent table")
    case None
    with Cons show ?thesis
      by (simp add: extractTalentFromTable_unguarded_eq firstTalent_def yieldsTalent_def Let_def)
  next
    case (Some found)
    show ?thesis
    proof (cases "found = []")
      case True
      with Some Cons.prems have "extractTalentFromTable_unguarded c table = c"
        by (simp add: extractTalentFromTable_unguarded_eq)
      with Some True Cons show ?thesis
        by (simp add: firstTalent_def yieldsTalent_def Let_def)
    next
      case False
      with Some show ?thesis
        by (simp add: extractTalentFromTable_unguarded_eq firstTalent_def yieldsTalent_def Let_def)
    qed
  qed
qed

lemma firstTalent_none:
  "list_all (\<lambda>table. \<not> yieldsTalent (talentOf table)) tables \<Longrightarrow>
   firstTalent talentOf tables = []"
  by (induction tables) (simp_all add: firstTalent_def)

lemma guardedTalent_not_talent_table:
  "\<not> isTalentTable table \<Longrightarrow> \<not> yieldsTalent (guardedTalent table)"
  by (simp add: guardedTalent_def yieldsTalent_def)

lemma firstTalent_no_talent_table:
  assumes "list_all (\<lambda>table. \<not> isTalentTable table) tables"
  shows "firstTalent guardedTalent tables = []"
proof (rule firstTalent_none)
  from assms show "list_all (\<lambda>table. \<not> yieldsTalent (guardedTalent table)) tables"
    by (induction tables) (simp_all add: guardedTalent_not_talent_table)
qed

text \<open>
  C3, as the program has it.  When the first loop of \<^verbatim>\<open>extractFromTables\<close> leaves the
  talent empty, the second loop tries every table of the document in order, whatever its
  class, but \<^verbatim>\<open>extractTalentFromTable\<close> of \<^verbatim>\<open>main.go\<close> reads a table only if its
  text contains both the word for talent and the word for effect, and leaves the record as
  it is on any other table: the talent is the trimmed text of the first gold cell, among
  the cells that the program reads in it, of the first such table where that text is not
  empty, and stays empty when there is none; so it stays empty when no table of the
  document contains both words.  The cells read in a table include those of the tables
  nested in it.  In \<^verbatim>\<open>part_000\<close>, whose \<^verbatim>\<open>extractTalentFromTable\<close> has no such
  test, the second loop takes the first table whose first gold cell has a text that is not
  empty.
\<close>

theorem talent_fallback_guarded:
  "(Talent (classifiedTablesLoop c (findAllNodes doc ''table'')) = [] \<longrightarrow>
      extractFromTables c doc =
        (classifiedTablesLoop c (findAllNodes doc ''table''))
          \<lparr>Talent := firstTalent guardedTalent (findAllNodes doc ''table'')\<rparr>)
   \<and> (\<not> isTalentTable table \<longrightarrow> extractTalentFromTable c table = c)
   \<and> (Talent (classifiedTablesLoop c (findAllNodes doc ''table'')) = [] \<and>
       list_all (\<lambda>table. \<not> isTalentTable table) (findAllNodes doc ''table'') \<longrightarrow>
        extractFromTables c doc = classifiedTablesLoop c (findAllNodes doc ''table'') \<and>
        Talent (extractFromTables c doc) = [])
   \<and> (Talent c = [] \<longrightarrow>
        talentFallbackLoop_unguarded c tables = c\<lparr>Talent := firstTalent goldTalent tables\<rparr>)"
proof (intro conjI impI)
  assume "Talent (classifiedTablesLoop c (findAllNodes doc ''table'')) = []"
  then show "extractFromTables c doc =
        (classifiedTablesLoop c (findAllNodes doc ''table''))
          \<lparr>Talent := firstTalent guardedTalent (findAllNodes doc ''table'')\<rparr>"
    by (simp add: extractFromTables_def Let_def talentFallbackLoop_eq)
next
  assume "\<not> isTalentTable table"
  then show "extractTalentFromTable c table = c"
    by (simp add: extractTalentFromTable_def)
next
  assume a: "Talent (classifiedTablesLoop c (findAllNodes doc ''table'')) = [] \<and>
       list_all (\<lambda>table. \<not> isTalentTable table) (findAllNodes doc ''table'')"
  then have none: "firstTalent guardedTalent (findAllNodes doc ''table'') = []"
    by (simp add: firstTalent_no_talent_table)
  from a have "extractFromTables c doc =
        (classifiedTablesLoop c (findAllNodes doc ''table''))
          \<lparr>Talent := firstTalent guardedTalent (findAllNodes doc ''table'')\<rparr>"
    by (simp add: extractFromTables_def Let_def talentFallbackLoop_eq)
  with a none show whole: "extractFromTables c doc = classifiedTablesLoop c (findAllNodes doc ''table'')"
    by simp
  with a show "Talent (extractFromTables c doc) = []" by simp
next
  assume "Talent c = []"
  then show "talentFallbackLoop_unguarded c tables = c\<lparr>Talent := firstTalent goldTalent tables\<rparr>"
    by (rule talentFallbackLoop_unguarded_eq)
qed

lemma fallbackDoc_facts:
  "Talent (classifiedTablesLoop emptyCharacter (findAllNodes fallbackDoc ''table'')) = []"
  "classifiedTablesLoop emptyCharacter (findAllNodes fallbackDoc ''table'') = emptyCharacter"
  "firstTalent guardedTalent (findAllNodes fallbackDoc ''table'') = ''Y''"
  "firstTalent goldTalent [goldOnlyTable, basicTalentTable] = ''X''"
  "Talent emptyCharacter = []"
  by code_simp+

lemma nestedGoldDoc_facts:
  "findAllNodes nestedGoldDoc ''table'' = [nestedGoldTable, goldOnlyTable]"
  "Talent (classifiedTablesLoop emptyCharacter (findAllNodes nestedGoldDoc ''table'')) = []"
  "classifiedTablesLoop emptyCharacter (findAllNodes nestedGoldDoc ''table'') = emptyCharacter"
  "firstTalent guardedTalent (findAllNodes nestedGoldDoc ''table'') = ''X''"
  "isTalentTable nestedGoldTable"
  by code_simp+

lemma goldOnlyDoc_facts:
  "Talent (classifiedTablesLoop emptyCharacter (findAllNodes goldOnlyDoc ''table'')) = []"
  "classifiedTablesLoop emptyCharacter (findAllNodes goldOnlyDoc ''table'') = emptyCharacter"
  "list_all (\<lambda>table. \<not> isTalentTable table) (findAllNodes goldOnlyDoc ''table'')"
  "\<not> isTalentTable goldOnlyTable"
  by code_simp+

theorem talent_fallback_guarded_witness:
  "extractFromTables emptyCharacter fallbackDoc = emptyCharacter\<lparr>Talent := ''Y''\<rparr>
   \<and> extractFromTables emptyCharacter nestedGoldDoc = emptyCharacter\<lparr>Talent := ''X''\<rparr>
   \<and> extractTalentFromTable emptyCharacter goldOnlyTable = emptyCharacter
   \<and> extractFromTables emptyCharacter goldOnlyDoc = emptyCharacter
   \<and> talentFallbackLoop_unguarded emptyCharacter [goldOnlyTable, basicTalentTable] =
       emptyCharacter\<lparr>Talent := ''X''\<rparr>"
proof -
  have a: "extractFromTables emptyCharacter fallbackDoc = emptyCharacter\<lparr>Talent := ''Y''\<rparr>"
    and e: "talentFallbackLoop_unguarded emptyCharacter [goldOnlyTable, basicTalentTable] =
       emptyCharacter\<lparr>Talent := ''X''\<rparr>"
    using talent_fallback_guarded
        [of emptyCharacter fallbackDoc goldOnlyTable "[goldOnlyTable, basicTalentTable]"]
      fallbackDoc_facts
    by (simp_all del: talentFallbackLoop_unguarded.simps)
  have b: "extractFromTables emptyCharacter nestedGoldDoc = emptyCharacter\<lparr>Talent := ''X''\<rparr>"
    using talent_fallback_guarded
        [of emptyCharacter nestedGoldDoc goldOnlyTable "[goldOnlyTable, basicTalentTable]"]
      nestedGoldDoc_facts(2-4)
    by (simp del: talentFallbackLoop_unguarded.simps)
  have c: "extractTalentFromTable emptyCharacter goldOnlyTable = emptyCharacter"
    and "extractFromTables emptyCharacter goldOnlyDoc =
      classifiedTablesLoop emptyCharacter (findAllNodes goldOnlyDoc ''table'')"
    using talent_fallback_guarded
        [of emptyCharacter goldOnlyDoc goldOnlyTable "[goldOnlyTable, basicTalentTable]"]
      goldOnlyDoc_facts(1,3,4)
    by blast+
  then have d: "extractFromTables emptyCharacter goldOnlyDoc = emptyCharacter"
    by (simp only: goldOnlyDoc_facts(2))
  from a b c d e show ?thesis by (simp only: simp_thms)
qed

text \<open>
  A document with one table, which has a gold cell and neither word: the first loop leaves
  the talent empty, the first table with a gold cell would give \<^verbatim>\<open>X\<close>, and the talent
  that \<^verbatim>\<open>extractFromTables\<close> returns is empty.
\<close>

theorem talent_fallback_counterexample:
  "findAllNodes goldOnlyDoc ''table'' = [goldOnlyTable]
   \<and> Talent (classifiedTablesLoop emptyCharacter (findAllNodes goldOnlyDoc ''table'')) = []
   \<and> find goldCell (cellsByRow goldOnlyTable) = Some (styledCell ''background-color:gold'' ''X'')
   \<and> firstTalent goldTalent (findAllNodes goldOnlyDoc ''table'') = ''X''
   \<and> isTalentTable goldOnlyTable = False
   \<and> Talent (extractFromTables emptyCharacter goldOnlyDoc) = []"
  by code_simp

section \<open>Name and reading: two ways of parsing\<close>

lemma strContains_single: "strContains s [c] = (c \<in> set s)"
  by (induction s) (auto simp: hasPrefix_def)

lemma strSplit_hd: "hd (strSplit s sep) = takeWhile (\<lambda>c. c \<noteq> sep) s"
proof (cases "sep \<in> set s")
  case True
  then show ?thesis by (subst strSplit.simps) simp
next
  case False
  then have "\<forall>c\<in>set s. c \<noteq> sep" by blast
  then have "takeWhile (\<lambda>c. c \<noteq> sep) s = s" by (simp only: takeWhile_eq_all_conv)
  moreover from False have "strSplit s sep = [s]" by (subst strSplit.simps) simp
  ultimately show ?thesis by (simp only: list.sel)
qed

lemma strSplit_nonempty: "strSplit s sep \<noteq> []"
  by (subst strSplit.simps) simp

lemma strSplit_found:
  "sep \<in> set s \<Longrightarrow>
   \<exists>rest. strSplit s sep =
     takeWhile (\<lambda>c. c \<noteq> sep) s
       # takeWhile (\<lambda>c. c \<noteq> sep) (tl (dropWhile (\<lambda>c. c \<noteq> sep) s)) # rest"
proof -
  assume a: "sep \<in> set s"
  obtain p ps where ps: "strSplit (tl (dropWhile (\<lambda>c. c \<noteq> sep) s)) sep = p # ps"
    using strSplit_nonempty by (cases "strSplit (tl (dropWhile (\<lambda>c. c \<noteq> sep) s)) sep") auto
  then have "p = takeWhile (\<lambda>c. c \<noteq> sep) (tl (dropWhile (\<lambda>c. c \<noteq> sep) s))"
    using strSplit_hd[of "tl (dropWhile (\<lambda>c. c \<noteq> sep) s)" sep] by simp
  with a ps show ?thesis by (subst strSplit.simps) simp
qed

lemma trimPrefixes_decomp:
  "\<exists>p. s = p @ trimPrefixes ws s \<and> set p \<subseteq> \<Union> (set ` set ws)"
proof (induction ws s rule: trimPrefixes.induct)
  case (1 ws s)
  show ?case
  proof (cases "find (\<lambda>w. w \<noteq> [] \<and> hasPrefix s w) ws")
    case None
    then have "trimPrefixes ws s = s" by (subst trimPrefixes.simps) simp
    then show ?thesis by simp
  next
    case (Some w)
    then have w: "w \<in> set ws" and pre: "take (length w) s = w"
      by (auto simp: find_Some_iff hasPrefix_def)
    from Some have eq: "trimPrefixes ws s = trimPrefixes ws (drop (length w) s)"
      by (subst trimPrefixes.simps) simp
    from "1.IH"[OF Some] obtain p where
      p: "drop (length w) s = p @ trimPrefixes ws (drop (length w) s)"
      and sub: "set p \<subseteq> \<Union> (set ` set ws)"
      by blast
    have "s = take (length w) s @ drop (length w) s" by simp
    with pre p eq have "s = (w @ p) @ trimPrefixes ws s" by simp
    moreover from w sub have "set (w @ p) \<subseteq> \<Union> (set ` set ws)" by auto
    ultimately show ?thesis by blast
  qed
qed

lemma trimPrefixes_subset: "set (trimPrefixes ws s) \<subseteq> set s"
proof -
  obtain p where "s = p @ trimPrefixes ws s" using trimPrefixes_decomp by blast
  then have "set s = set p \<union> set (trimPrefixes ws s)" by (metis set_append)
  then show ?thesis by blast
qed

lemma trimPrefixes_keeps:
  "c \<in> set s \<Longrightarrow> c \<notin> \<Union> (set ` set ws) \<Longrightarrow> c \<in> set (trimPrefixes ws s)"
proof -
  assume c: "c \<in> set s" and n: "c \<notin> \<Union> (set ` set ws)"
  obtain p where p: "s = p @ trimPrefixes ws s" and sub: "set p \<subseteq> \<Union> (set ` set ws)"
    using trimPrefixes_decomp by blast
  from p have "set s = set p \<union> set (trimPrefixes ws s)" by (metis set_append)
  with c n sub show ?thesis by blast
qed

lemma trimSpace_subset: "set (trimSpace s) \<subseteq> set s"
  unfolding trimSpace_def
  using trimPrefixes_subset[of "map rev unicodeSpaces" "rev (trimPrefixes unicodeSpaces s)"]
    trimPrefixes_subset[of unicodeSpaces s]
  by auto

lemma trimSpace_keeps:
  assumes "c \<in> set s" and "c \<notin> \<Union> (set ` set unicodeSpaces)"
  shows "c \<in> set (trimSpace s)"
proof -
  have 1: "c \<in> set (rev (trimPrefixes unicodeSpaces s))"
    using trimPrefixes_keeps[OF assms] by simp
  have "\<Union> (set ` set (map rev unicodeSpaces)) = \<Union> (set ` set unicodeSpaces)"
    by auto
  with assms(2) have 2: "c \<notin> \<Union> (set ` set (map rev unicodeSpaces))" by simp
  show ?thesis
    unfolding trimSpace_def using trimPrefixes_keeps[OF 1 2] by simp
qed

lemma parens_not_space:
  "CHR ''('' \<notin> \<Union> (set ` set unicodeSpaces)" "CHR '')'' \<notin> \<Union> (set ` set unicodeSpaces)"
  by (simp_all add: unicodeSpaces_def)

lemma nameAndReadingOfText_eq:
  "nameAndReadingOfText c text =
     (if CHR ''('' \<in> set text \<and> CHR '')'' \<in> set (afterOpen text)
      then c\<lparr>Name := trimSpace (beforeOpen text),
             Reading := trimSpace (takeWhile (\<lambda>c. c \<noteq> CHR '')'') (afterOpen text))\<rparr>
      else c)"
  by (simp add: nameAndReadingOfText_def strCut_def beforeOpen_def afterOpen_def)

lemma nameAndReadingOfText_split_eq:
  "nameAndReadingOfText_split c text =
     (if CHR ''('' \<in> set text \<and> CHR '')'' \<in> set text
      then c\<lparr>Name := trimSpace (beforeOpen text),
             Reading := trimSpace (takeWhile (\<lambda>c. c \<noteq> CHR '')'')
                          (takeWhile (\<lambda>c. c \<noteq> CHR ''('') (afterOpen text)))\<rparr>
      else c)"
proof (cases "CHR ''('' \<in> set text \<and> CHR '')'' \<in> set text")
  case False
  then show ?thesis
    by (auto simp: nameAndReadingOfText_split_def strContains_single)
next
  case True
  then obtain rest where
    "strSplit text (CHR ''('') = beforeOpen text
       # takeWhile (\<lambda>c. c \<noteq> CHR ''('') (afterOpen text) # rest"
    using strSplit_found[of "CHR ''(''" "text"] by (auto simp: beforeOpen_def afterOpen_def)
  with True show ?thesis
    by (simp add: nameAndReadingOfText_split_def strContains_single strSplit_hd)
qed

lemma takeWhile_takeWhile_same:
  "\<forall>x\<in>set (takeWhile P xs). Q x \<Longrightarrow> takeWhile P (takeWhile Q xs) = takeWhile P xs"
  by (induction xs) auto

lemma text_parts:
  "CHR ''('' \<in> set text \<Longrightarrow> text = beforeOpen text @ CHR ''('' # afterOpen text"
proof -
  assume a: "CHR ''('' \<in> set text"
  then have "dropWhile (\<lambda>c. c \<noteq> CHR ''('') text \<noteq> []" by simp
  moreover have "hd (dropWhile (\<lambda>c. c \<noteq> CHR ''('') text) = CHR ''(''"
    using a hd_dropWhile[of "\<lambda>c. c \<noteq> CHR ''(''" "text"] by auto
  ultimately have "dropWhile (\<lambda>c. c \<noteq> CHR ''('') text = CHR ''('' # afterOpen text"
    unfolding afterOpen_def by (cases "dropWhile (\<lambda>c. c \<noteq> CHR ''('') text") auto
  then show ?thesis
    unfolding beforeOpen_def using takeWhile_dropWhile_id[of "\<lambda>c. c \<noteq> CHR ''(''" "text"]
    by simp
qed

lemma parsers_agree:
  assumes "parsesAlike text"
  shows "nameAndReadingOfText c text = nameAndReadingOfText_split c text"
proof (cases "CHR ''('' \<in> set text \<and> CHR '')'' \<in> set text")
  case False
  then have "CHR ''('' \<notin> set text \<or> CHR '')'' \<notin> set (afterOpen text)"
    using text_parts[of "text"] by (metis in_set_conv_decomp list.set_intros(2) set_append Un_iff)
  with False show ?thesis
    by (auto simp: nameAndReadingOfText_eq nameAndReadingOfText_split_eq)
next
  case True
  with assms have close: "CHR '')'' \<in> set (afterOpen text)"
    and noopen: "CHR ''('' \<notin> set (takeWhile (\<lambda>c. c \<noteq> CHR '')'') (afterOpen text))"
    by (auto simp: parsesAlike_def)
  from noopen have
    "takeWhile (\<lambda>c. c \<noteq> CHR '')'') (takeWhile (\<lambda>c. c \<noteq> CHR ''('') (afterOpen text)) =
     takeWhile (\<lambda>c. c \<noteq> CHR '')'') (afterOpen text)"
    by (intro takeWhile_takeWhile_same) auto
  with True close show ?thesis
    by (simp add: nameAndReadingOfText_eq nameAndReadingOfText_split_eq)
qed

lemma not_in_takeWhile: "x \<notin> set (takeWhile (\<lambda>c. c \<noteq> x) xs)"
  using set_takeWhileD[of x "\<lambda>c. c \<noteq> x" xs] by blast

lemma takeWhile_subset: "set (takeWhile P xs) \<subseteq> set xs"
  using set_takeWhileD[of _ P xs] by blast

lemma parsers_differ:
  assumes "\<not> parsesAlike text"
  shows "nameAndReadingOfText emptyCharacter text \<noteq> nameAndReadingOfText_split emptyCharacter text"
proof -
  from assms have op: "CHR ''('' \<in> set text" and cl: "CHR '')'' \<in> set text"
    and bad: "CHR '')'' \<notin> set (afterOpen text) \<or>
      CHR ''('' \<in> set (takeWhile (\<lambda>c. c \<noteq> CHR '')'') (afterOpen text))"
    by (auto simp: parsesAlike_def)
  show ?thesis
  proof (cases "CHR '')'' \<in> set (afterOpen text)")
    case False
    have "set text = set (beforeOpen text @ CHR ''('' # afterOpen text)"
      by (rule arg_cong[OF text_parts[OF op]])
    with cl False have "CHR '')'' \<in> set (beforeOpen text)" by simp
    then have "CHR '')'' \<in> set (trimSpace (beforeOpen text))"
      by (rule trimSpace_keeps) (rule parens_not_space)
    then have ne: "trimSpace (beforeOpen text) \<noteq> []" by auto
    have n1: "Name (nameAndReadingOfText_split emptyCharacter text) = trimSpace (beforeOpen text)"
      using op cl by (simp add: nameAndReadingOfText_split_eq)
    have n2: "Name (nameAndReadingOfText emptyCharacter text) = []"
      using False by (simp add: nameAndReadingOfText_eq emptyCharacter_def)
    show ?thesis
    proof
      assume "nameAndReadingOfText emptyCharacter text =
        nameAndReadingOfText_split emptyCharacter text"
      then have "Name (nameAndReadingOfText emptyCharacter text) =
        Name (nameAndReadingOfText_split emptyCharacter text)"
        by (rule arg_cong)
      then have "trimSpace (beforeOpen text) = []" unfolding n1 n2 by (rule sym)
      with ne show False by (rule notE)
    qed
  next
    case True
    with bad have inner: "CHR ''('' \<in> set (takeWhile (\<lambda>c. c \<noteq> CHR '')'') (afterOpen text))"
      by simp
    then have 1: "CHR ''('' \<in> set (trimSpace (takeWhile (\<lambda>c. c \<noteq> CHR '')'') (afterOpen text)))"
      by (rule trimSpace_keeps) (rule parens_not_space)
    have sub: "set (trimSpace (takeWhile (\<lambda>c. c \<noteq> CHR '')'')
        (takeWhile (\<lambda>c. c \<noteq> CHR ''('') (afterOpen text))))
        \<subseteq> set (takeWhile (\<lambda>c. c \<noteq> CHR ''('') (afterOpen text))"
      using trimSpace_subset takeWhile_subset by (rule subset_trans)
    have 2: "CHR ''('' \<notin> set (trimSpace (takeWhile (\<lambda>c. c \<noteq> CHR '')'')
        (takeWhile (\<lambda>c. c \<noteq> CHR ''('') (afterOpen text))))"
    proof
      assume "CHR ''('' \<in> set (trimSpace (takeWhile (\<lambda>c. c \<noteq> CHR '')'')
        (takeWhile (\<lambda>c. c \<noteq> CHR ''('') (afterOpen text))))"
      with sub have "CHR ''('' \<in> set (takeWhile (\<lambda>c. c \<noteq> CHR ''('') (afterOpen text))"
        by (rule subsetD)
      with not_in_takeWhile[of "CHR ''(''" "afterOpen text"] show False by (rule notE)
    qed
    have r1: "Reading (nameAndReadingOfText emptyCharacter text) =
        trimSpace (takeWhile (\<lambda>c. c \<noteq> CHR '')'') (afterOpen text))"
      using op True by (simp add: nameAndReadingOfText_eq)
    have r2: "Reading (nameAndReadingOfText_split emptyCharacter text) =
        trimSpace (takeWhile (\<lambda>c. c \<noteq> CHR '')'')
          (takeWhile (\<lambda>c. c \<noteq> CHR ''('') (afterOpen text)))"
      using op cl by (simp add: nameAndReadingOfText_split_eq)
    show ?thesis
    proof
      assume "nameAndReadingOfText emptyCharacter text =
        nameAndReadingOfText_split emptyCharacter text"
      then have "Reading (nameAndReadingOfText emptyCharacter text) =
        Reading (nameAndReadingOfText_split emptyCharacter text)"
        by (rule arg_cong)
      then have same: "trimSpace (takeWhile (\<lambda>c. c \<noteq> CHR '')'') (afterOpen text)) =
        trimSpace (takeWhile (\<lambda>c. c \<noteq> CHR '')'')
          (takeWhile (\<lambda>c. c \<noteq> CHR ''('') (afterOpen text)))"
        unfolding r1 r2 .
      from 1 have "CHR ''('' \<in> set (trimSpace (takeWhile (\<lambda>c. c \<noteq> CHR '')'')
          (takeWhile (\<lambda>c. c \<noteq> CHR ''('') (afterOpen text))))"
        unfolding same .
      with 2 show False by (rule notE)
    qed
  qed
qed

text \<open>
  C6, as the programs have it.  The function of \<^verbatim>\<open>main.go\<close> (two cuts) and that of
  \<^verbatim>\<open>part_000\<close> (a guard and two splits) give the same record exactly on the texts of
  \<open>parsesAlike\<close>, shown here from the empty record, and on those texts from every
  record.  There the name is the trimmed text before the first \<^verbatim>\<open>(\<close> and the
  reading the trimmed text between it and the next \<^verbatim>\<open>)\<close>, and a text without one
  of the parentheses leaves the record as it is.
\<close>

theorem name_parsers_agree_on_paired_texts:
  "(nameAndReadingOfText emptyCharacter text = nameAndReadingOfText_split emptyCharacter text)
     = parsesAlike text
   \<and> (parsesAlike text \<longrightarrow> nameAndReadingOfText c text = nameAndReadingOfText_split c text)
   \<and> nameAndReadingOfText c text =
       (if CHR ''('' \<in> set text \<and> CHR '')'' \<in> set (afterOpen text)
        then c\<lparr>Name := trimSpace (beforeOpen text),
               Reading := trimSpace (takeWhile (\<lambda>c. c \<noteq> CHR '')'') (afterOpen text))\<rparr>
        else c)"
  using parsers_agree parsers_differ nameAndReadingOfText_eq by blast

lemma paired_text_facts:
  "parsesAlike ''Liu Bei (Ryu Bi)''"
  "CHR ''('' \<in> set ''Liu Bei (Ryu Bi)''"
  "CHR '')'' \<in> set (afterOpen ''Liu Bei (Ryu Bi)'')"
  "trimSpace (beforeOpen ''Liu Bei (Ryu Bi)'') = ''Liu Bei''"
  "trimSpace (takeWhile (\<lambda>c. c \<noteq> CHR '')'') (afterOpen ''Liu Bei (Ryu Bi)'')) = ''Ryu Bi''"
  by code_simp+

theorem name_parsers_agree_on_paired_texts_witness:
  "nameAndReadingOfText emptyCharacter ''Liu Bei (Ryu Bi)'' =
     emptyCharacter\<lparr>Name := ''Liu Bei'', Reading := ''Ryu Bi''\<rparr>
   \<and> nameAndReadingOfText_split emptyCharacter ''Liu Bei (Ryu Bi)'' =
     emptyCharacter\<lparr>Name := ''Liu Bei'', Reading := ''Ryu Bi''\<rparr>"
  using name_parsers_agree_on_paired_texts[of "''Liu Bei (Ryu Bi)''" emptyCharacter]
    paired_text_facts
  by auto

text \<open>
  Two texts on which they differ: with a \<^verbatim>\<open>)\<close> before the \<^verbatim>\<open>(\<close> only, the cuts
  leave name and reading empty and the splits fill them; with a second \<^verbatim>\<open>(\<close> before
  the \<^verbatim>\<open>)\<close>, the readings differ.
\<close>

theorem name_parsers_differ_counterexample:
  "Name (nameAndReadingOfText emptyCharacter ''a)b(c'') = []
   \<and> Reading (nameAndReadingOfText emptyCharacter ''a)b(c'') = []
   \<and> Name (nameAndReadingOfText_split emptyCharacter ''a)b(c'') = ''a)b''
   \<and> Reading (nameAndReadingOfText_split emptyCharacter ''a)b(c'') = ''c''
   \<and> Reading (nameAndReadingOfText emptyCharacter ''a(b(c)'') = ''b(c''
   \<and> Reading (nameAndReadingOfText_split emptyCharacter ''a(b(c)'') = ''b''
   \<and> Name (extractNameAndReading emptyCharacter (element ''strong'' [] [textNode ''a)b(c''])) = []
   \<and> Name (extractNameAndReading_split emptyCharacter (element ''strong'' [] [textNode ''a)b(c'']))
       = ''a)b''"
  by code_simp


end
